theory Spec2Isabelle
  imports Complex_Main
begin

section \<open>Shallow embedding of the simulation core of fps_game.py\<close>

text \<open>
  Python floats are idealised as the type \<open>real\<close>: every comparison, subtraction and
  square root of the source is the exact one.  The one exception of float arithmetic
  that the source can raise, the \<open>OverflowError\<close> of \<open>**\<close>, is modelled in the checked
  versions of \<open>Vector3.length\<close> and \<open>Vector3.normalize\<close>.  Python ints (ammo, reserve, score,
  kills, wave, enemies per wave) are \<open>int\<close>.  The module-level random generator is
  an explicit infinite sequence of raw draws that every operation using
  \<open>random\<close> consumes from the front and hands back.  The model covers \<open>Vector3\<close>,
  \<open>Camera.get_forward\<close>, \<open>Enemy\<close>, \<open>Particle\<close> and every method of \<open>Game\<close>; the
  OpenGL drawing functions and the event loop of \<open>main\<close> are outside it.
\<close>

subsection \<open>Errors\<close>




subsection \<open>Vector3\<close>

record vector3 =
  x :: real
  y :: real
  z :: real

definition Vector3 :: "real \<Rightarrow> real \<Rightarrow> real \<Rightarrow> vector3" where
  "Vector3 a b c = \<lparr>x = a, y = b, z = c\<rparr>"

definition vadd :: "vector3 \<Rightarrow> vector3 \<Rightarrow> vector3" where
  "vadd u v = Vector3 (x u + x v) (y u + y v) (z u + z v)"

definition vsub :: "vector3 \<Rightarrow> vector3 \<Rightarrow> vector3" where
  "vsub u v = Vector3 (x u - x v) (y u - y v) (z u - z v)"

definition vmul :: "vector3 \<Rightarrow> real \<Rightarrow> vector3" where
  "vmul u s = Vector3 (x u * s) (y u * s) (z u * s)"

definition length_v :: "vector3 \<Rightarrow> real" where
  "length_v u = sqrt ((x u)\<^sup>2 + (y u)\<^sup>2 + (z u)\<^sup>2)"



definition normalize_v :: "vector3 \<Rightarrow> vector3" where
  "normalize_v u =
     (let l = length_v u in
      if l > 0 then Vector3 (x u / l) (y u / l) (z u / l) else Vector3 0 0 0)"

definition dot :: "vector3 \<Rightarrow> vector3 \<Rightarrow> real" where
  "dot u v = x u * x v + y u * y v + z u * z v"

subsection \<open>Weapon configuration\<close>

datatype weapon = Pistol | Rifle | Shotgun

record weapon_config =
  name :: string
  damage :: real
  fire_rate :: real
  max_ammo :: int
  reload_time :: real
  spread :: real
  pellets :: int

definition WeaponConfig ::
  "string \<Rightarrow> real \<Rightarrow> real \<Rightarrow> int \<Rightarrow> real \<Rightarrow> real \<Rightarrow> int \<Rightarrow> weapon_config" where
  "WeaponConfig n d f m r s p =
     \<lparr>name = n, damage = d, fire_rate = f, max_ammo = m, reload_time = r, spread = s,
      pellets = p\<rparr>"

fun WEAPONS :: "weapon \<Rightarrow> weapon_config" where
  "WEAPONS Pistol = WeaponConfig ''Pistol'' 35 0.3 12 1.5 0.01 1"
| "WEAPONS Rifle = WeaponConfig ''Rifle'' 25 0.15 30 2.0 0.005 1"
| "WEAPONS Shotgun = WeaponConfig ''Shotgun'' 20 0.8 8 2.5 0.05 6"

subsection \<open>Camera\<close>

record camera =
  position :: vector3
  yaw :: real
  pitch :: real

definition radians :: "real \<Rightarrow> real" where
  "radians d = d * pi / 180"

definition get_forward :: "camera \<Rightarrow> vector3" where
  "get_forward c =
     normalize_v (Vector3 (sin (radians (yaw c)) * cos (radians (pitch c)))
                          (sin (radians (pitch c)))
                          (- cos (radians (yaw c)) * cos (radians (pitch c))))"

subsection \<open>Enemy\<close>

datatype enemy_type = normal | fast | tank

record enemy =
  position :: vector3
  enemy_type :: enemy_type
  alive :: bool
  health :: real
  max_health :: real
  speed :: real
  size :: real
  color :: "real \<times> real \<times> real"
  score :: int
  move_timer :: real
  move_target :: "vector3 option"

fun Enemy :: "vector3 \<Rightarrow> enemy_type \<Rightarrow> enemy" where
  "Enemy pos fast =
     \<lparr>position = pos, enemy_type = fast, alive = True, health = 50, max_health = 50,
      speed = 2.0, size = 0.8, color = (1.0, 0.5, 0.0), score = 5,
      move_timer = 0, move_target = None\<rparr>"
| "Enemy pos tank =
     \<lparr>position = pos, enemy_type = tank, alive = True, health = 150, max_health = 150,
      speed = 0.5, size = 1.5, color = (0.5, 0.0, 1.0), score = 15,
      move_timer = 0, move_target = None\<rparr>"
| "Enemy pos normal =
     \<lparr>position = pos, enemy_type = normal, alive = True, health = 100, max_health = 100,
      speed = 1.0, size = 1.0, color = (1.0, 0.0, 0.0), score = 10,
      move_timer = 0, move_target = None\<rparr>"

text \<open>\<open>Enemy.hit\<close>: the enemy after the hit and the returned flag.\<close>

definition hit :: "enemy \<Rightarrow> real \<Rightarrow> enemy \<times> bool" where
  "hit e dmg =
     (let e1 = e\<lparr>health := health e - dmg\<rparr> in
      if health e1 \<le> 0 then (e1\<lparr>alive := False\<rparr>, True) else (e1, False))"

subsection \<open>Raycast\<close>

text \<open>
  The enemies are Python objects held in the list \<open>self.enemies\<close>; the object
  \<open>raycast\<close> returns is identified by its index in that list.  \<open>closest_dist\<close>
  starts as \<open>float('inf')\<close>, which is \<open>None\<close> here.
\<close>

definition below :: "real \<Rightarrow> real option \<Rightarrow> bool" where
  "below p cd = (case cd of None \<Rightarrow> True | Some c \<Rightarrow> p < c)"

fun raycast_from ::
  "nat \<Rightarrow> enemy list \<Rightarrow> vector3 \<Rightarrow> vector3 \<Rightarrow> nat option \<times> real option
     \<Rightarrow> nat option \<times> real option" where
  "raycast_from i [] origin direction acc = acc"
| "raycast_from i (e # es) origin direction (closest_enemy, closest_dist) =
     (if \<not> alive e then
        raycast_from (Suc i) es origin direction (closest_enemy, closest_dist)
      else
        let to_enemy = vsub (enemy.position e) origin;
            proj = dot to_enemy direction
        in if proj < 0 then
             raycast_from (Suc i) es origin direction (closest_enemy, closest_dist)
           else
             let closest_point = vadd origin (vmul direction proj);
                 dist_to_enemy = length_v (vsub closest_point (enemy.position e))
             in if dist_to_enemy < size e \<and> below proj closest_dist then
                  raycast_from (Suc i) es origin direction (Some i, Some proj)
                else
                  raycast_from (Suc i) es origin direction (closest_enemy, closest_dist))"

definition raycast :: "enemy list \<Rightarrow> vector3 \<Rightarrow> vector3 \<Rightarrow> nat option" where
  "raycast es origin direction = fst (raycast_from 0 es origin direction (None, None))"

subsection \<open>The random source\<close>

text \<open>
  \<open>random.random()\<close> is a 53-bit integer divided by \<open>2^53\<close>; \<open>random.uniform(a, b)\<close>
  is \<open>a + (b - a) * random()\<close>; \<open>random.choice(seq)\<close> takes an index below
  \<open>len(seq)\<close>.  Each consumes one raw draw.
\<close>

type_synonym rng = "nat \<Rightarrow> nat"

definition advance :: "rng \<Rightarrow> rng" where
  "advance r = (\<lambda>n. r (Suc n))"

definition random :: "rng \<Rightarrow> real \<times> rng" where
  "random r = (real (r 0 mod 2 ^ 53) / 2 ^ 53, advance r)"

definition uniform :: "real \<Rightarrow> real \<Rightarrow> rng \<Rightarrow> real \<times> rng" where
  "uniform a b r = (let (u, r') = random r in (a + (b - a) * u, r'))"

definition choice :: "'a list \<Rightarrow> rng \<Rightarrow> 'a \<times> rng" where
  "choice xs r = (xs ! (r 0 mod length xs), advance r)"

subsection \<open>Enemy.update\<close>

definition enemy_update :: "real \<Rightarrow> vector3 \<Rightarrow> enemy \<times> rng \<Rightarrow> enemy \<times> rng" where
  "enemy_update dt player_pos er =
     (let (e, r) = er in
      if \<not> alive e then (e, r)
      else
        let e1 = e\<lparr>move_timer := move_timer e + dt\<rparr>;
            (e2, r2) =
              (if move_timer e1 > 2.0 then
                 let (ox, ra) = uniform (- 5) 5 r;
                     (oz, rb) = uniform (- 5) 5 ra;
                     offset = Vector3 ox 0 oz
                 in (e1\<lparr>move_timer := 0, move_target := Some (vadd player_pos offset)\<rparr>, rb)
               else (e1, r))
        in case move_target e2 of
             None \<Rightarrow> (e2, r2)
           | Some t \<Rightarrow>
               let direction = (vsub t (enemy.position e2))\<lparr>y := 0\<rparr>;
                   dist = length_v direction
               in if dist > 0.5 then
                    let move = vmul (vmul (normalize_v direction) (speed e2)) dt
                    in (e2\<lparr>enemy.position := vadd (enemy.position e2) move\<rparr>, r2)
                  else (e2, r2))"

fun update_enemies :: "real \<Rightarrow> vector3 \<Rightarrow> enemy list \<Rightarrow> rng \<Rightarrow> enemy list \<times> rng" where
  "update_enemies dt player_pos [] r = ([], r)"
| "update_enemies dt player_pos (e # es) r =
     (let (e', r1) = enemy_update dt player_pos (e, r);
          (es', r2) = update_enemies dt player_pos es r1
      in (e' # es', r2))"

subsection \<open>Particle\<close>

record particle =
  position :: vector3
  velocity :: vector3
  color :: "real \<times> real \<times> real"
  lifetime :: real
  max_lifetime :: real
  alive :: bool

definition Particle :: "vector3 \<Rightarrow> vector3 \<Rightarrow> real \<times> real \<times> real \<Rightarrow> real \<Rightarrow> particle" where
  "Particle pos vel col lt =
     \<lparr>position = pos, velocity = vel, color = col, lifetime = lt, max_lifetime = lt,
      alive = True\<rparr>"

definition particle_update :: "real \<Rightarrow> particle \<Rightarrow> particle" where
  "particle_update dt p =
     (let p1 = p\<lparr>lifetime := lifetime p - dt\<rparr> in
      if lifetime p1 \<le> 0 then p1\<lparr>particle.alive := False\<rparr>
      else
        let p2 = p1\<lparr>particle.position :=
                     vadd (particle.position p1) (vmul (velocity p1) dt)\<rparr>
        in p2\<lparr>velocity := (velocity p2)\<lparr>y := y (velocity p2) - 10.0 * dt\<rparr>\<rparr>)"

subsection \<open>Game\<close>

datatype game_state = MENU | PLAYING | PAUSED | GAME_OVER

datatype mode = target | survival

record weapon_data =
  ammo :: int
  reserve :: int
  cooldown :: real
  reloading :: real

record feed_item =
  message :: string
  time :: real

record game =
  state :: game_state
  camera :: camera
  enemies :: "enemy list"
  particles :: "particle list"
  score :: int
  kills :: int
  wave :: int
  player_health :: real
  max_health :: real
  current_weapon :: weapon
  weapons :: "weapon \<Rightarrow> weapon_data"
  game_mode :: "mode option"
  enemies_per_wave :: int
  shake_amount :: real
  shake_timer :: real
  kill_feed :: "feed_item list"

fun start_weapon :: "weapon \<Rightarrow> weapon_data" where
  "start_weapon Pistol = \<lparr>ammo = 12, reserve = 36, cooldown = 0, reloading = 0\<rparr>"
| "start_weapon Rifle = \<lparr>ammo = 30, reserve = 90, cooldown = 0, reloading = 0\<rparr>"
| "start_weapon Shotgun = \<lparr>ammo = 8, reserve = 24, cooldown = 0, reloading = 0\<rparr>"

text \<open>\<open>Game.__init__\<close>.\<close>

definition Game :: game where
  "Game =
     \<lparr>state = MENU,
      camera = \<lparr>camera.position = Vector3 0 2 0, yaw = 0, pitch = 0\<rparr>,
      enemies = [], particles = [],
      score = 0, kills = 0, wave = 0, player_health = 100, max_health = 100,
      current_weapon = Pistol,
      weapons = start_weapon,
      game_mode = None, enemies_per_wave = 5, shake_amount = 0, shake_timer = 0,
      kill_feed = []\<rparr>"

subsection \<open>Kill feed, screen shake, explosion\<close>

definition add_kill_feed :: "string \<Rightarrow> game \<Rightarrow> game" where
  "add_kill_feed msg g = g\<lparr>kill_feed := kill_feed g @ [\<lparr>message = msg, time = 3.0\<rparr>]\<rparr>"

definition screen_shake :: "real \<Rightarrow> game \<Rightarrow> game" where
  "screen_shake amount g = g\<lparr>shake_amount := amount, shake_timer := 0.2\<rparr>"

definition explosion_colors :: "(real \<times> real \<times> real) list" where
  "explosion_colors = [(1.0, 0.5, 0.0), (1.0, 0.0, 0.0), (1.0, 1.0, 0.0)]"

fun explosion_loop :: "nat \<Rightarrow> vector3 \<Rightarrow> game \<times> rng \<Rightarrow> game \<times> rng" where
  "explosion_loop 0 pos gr = gr"
| "explosion_loop (Suc n) pos gr =
     (let (g, r) = gr;
          (vx, r1) = uniform (- 3) 3 r;
          (vy, r2) = uniform 0 3 r1;
          (vz, r3) = uniform (- 3) 3 r2;
          velocity = Vector3 vx vy vz;
          (col, r4) = choice explosion_colors r3;
          (lt, r5) = uniform 0.3 0.7 r4
      in explosion_loop n pos
           (g\<lparr>particles := particles g @ [Particle pos velocity col lt]\<rparr>, r5))"

definition create_explosion :: "vector3 \<Rightarrow> game \<times> rng \<Rightarrow> game \<times> rng" where
  "create_explosion pos gr = explosion_loop 15 pos gr"

subsection \<open>Spawning\<close>

definition target_positions :: "vector3 list" where
  "target_positions =
     [Vector3 0 1 10, Vector3 (- 5) 1 8, Vector3 5 1 8,
      Vector3 (- 3) 1 12, Vector3 3 1 12, Vector3 0 1 15,
      Vector3 (- 7) 1 10, Vector3 7 1 10]"

definition spawn_targets :: "game \<Rightarrow> game" where
  "spawn_targets g = g\<lparr>enemies := enemies g @ map (\<lambda>pos. Enemy pos normal) target_positions\<rparr>"

text \<open>Decimal rendering of an int, as the f-string does.\<close>

fun str_nat :: "nat \<Rightarrow> string" where
  "str_nat n =
     (if n < 10 then [''0123456789'' ! n]
      else str_nat (n div 10) @ [''0123456789'' ! (n mod 10)])"

declare str_nat.simps [simp del]

definition str_int :: "int \<Rightarrow> string" where
  "str_int i = (if i < 0 then CHR ''-'' # str_nat (nat (- i)) else str_nat (nat i))"

fun spawn_loop :: "nat \<Rightarrow> game \<times> rng \<Rightarrow> game \<times> rng" where
  "spawn_loop 0 gr = gr"
| "spawn_loop (Suc n) gr =
     (let (g, r) = gr;
          (angle, r1) = uniform 0 (2 * pi) r;
          (distance, r2) = uniform 10 20 r1;
          ex = distance * cos angle;
          ez = distance * sin angle;
          (et, r3) = choice [normal, fast, tank] r2
      in spawn_loop n (g\<lparr>enemies := enemies g @ [Enemy (Vector3 ex 1 ez) et]\<rparr>, r3))"

definition spawn_wave :: "game \<times> rng \<Rightarrow> game \<times> rng" where
  "spawn_wave gr =
     (let (g, r) = gr;
          g1 = add_kill_feed (''Wave '' @ str_int (wave g) @ '' Starting!'') g;
          (g2, r2) = spawn_loop (nat (enemies_per_wave g1)) (g1, r)
      in (g2\<lparr>enemies_per_wave := enemies_per_wave g2 + 2\<rparr>, r2))"

definition start_game :: "mode \<Rightarrow> game \<times> rng \<Rightarrow> game \<times> rng" where
  "start_game m gr =
     (let (g, r) = gr;
          g1 = g\<lparr>game_mode := Some m, state := PLAYING, score := 0, kills := 0, wave := 0,
                 player_health := 100, enemies := [], particles := [], kill_feed := []\<rparr>;
          g2 = g1\<lparr>weapons := (weapons g1)
                     (Pistol := \<lparr>ammo = 12, reserve = 36, cooldown = 0, reloading = 0\<rparr>,
                      Rifle := \<lparr>ammo = 30, reserve = 90, cooldown = 0, reloading = 0\<rparr>,
                      Shotgun := \<lparr>ammo = 8, reserve = 24, cooldown = 0, reloading = 0\<rparr>),
                  current_weapon := Pistol\<rparr>;
          g3 = g2\<lparr>camera := (camera g2)\<lparr>camera.position := Vector3 0 2 0, yaw := 0,
                                          pitch := 0\<rparr>\<rparr>
      in if m = target then (spawn_targets g3, r)
         else spawn_wave (g3\<lparr>wave := 1\<rparr>, r))"

subsection \<open>Shooting and reloading\<close>

fun enemy_title :: "enemy_type \<Rightarrow> string" where
  "enemy_title normal = ''Normal''"
| "enemy_title fast = ''Fast''"
| "enemy_title tank = ''Tank''"

definition fire_pellet :: "weapon_config \<Rightarrow> game \<times> rng \<Rightarrow> game \<times> rng" where
  "fire_pellet config gr =
     (let (g, r) = gr;
          forward = get_forward (camera g);
          (spread_x, r1) = uniform (- spread config) (spread config) r;
          (spread_y, r2) = uniform (- spread config) (spread config) r1;
          direction = normalize_v (Vector3 (x forward + spread_x) (y forward + spread_y)
                                           (z forward))
      in case raycast (enemies g) (camera.position (camera g)) direction of
           None \<Rightarrow> (g, r2)
         | Some i \<Rightarrow>
             let (e', killed) = hit (enemies g ! i) (damage config);
                 g1 = g\<lparr>enemies := (enemies g)[i := e']\<rparr>
             in if killed then
                  let g2 = g1\<lparr>score := score g1 + enemy.score e'\<rparr>;
                      g3 = g2\<lparr>kills := kills g2 + 1\<rparr>;
                      g4 = add_kill_feed
                             (''Eliminated '' @ enemy_title (enemy_type e') @ '' Enemy'') g3
                  in create_explosion (enemy.position e') (g4, r2)
                else (g1, r2))"

fun pellet_loop :: "nat \<Rightarrow> weapon_config \<Rightarrow> game \<times> rng \<Rightarrow> game \<times> rng" where
  "pellet_loop 0 config gr = gr"
| "pellet_loop (Suc n) config gr = pellet_loop n config (fire_pellet config gr)"

definition shoot :: "game \<times> rng \<Rightarrow> game \<times> rng" where
  "shoot gr =
     (let (g, r) = gr;
          weapon_data = weapons g (current_weapon g);
          config = WEAPONS (current_weapon g)
      in if cooldown weapon_data > 0 \<or> reloading weapon_data > 0 \<or> ammo weapon_data \<le> 0
         then (g, r)
         else
           let g1 = g\<lparr>weapons := (weapons g)
                        (current_weapon g :=
                           weapon_data\<lparr>ammo := ammo weapon_data - 1,
                                       cooldown := fire_rate config\<rparr>)\<rparr>;
               g2 = screen_shake 0.15 g1
           in pellet_loop (nat (pellets config)) config (g2, r))"

definition reload :: "game \<Rightarrow> game" where
  "reload g =
     (let weapon_data = weapons g (current_weapon g);
          config = WEAPONS (current_weapon g)
      in if reloading weapon_data > 0 \<or> ammo weapon_data = max_ammo config
            \<or> reserve weapon_data \<le> 0
         then g
         else g\<lparr>weapons := (weapons g)
                   (current_weapon g := weapon_data\<lparr>reloading := reload_time config\<rparr>)\<rparr>)"

definition finish_reload :: "game \<Rightarrow> game" where
  "finish_reload g =
     (let weapon_data = weapons g (current_weapon g);
          config = WEAPONS (current_weapon g);
          ammo_needed = max_ammo config - ammo weapon_data;
          ammo_to_reload = min ammo_needed (reserve weapon_data)
      in g\<lparr>weapons := (weapons g)
              (current_weapon g :=
                 weapon_data\<lparr>ammo := ammo weapon_data + ammo_to_reload,
                             reserve := reserve weapon_data - ammo_to_reload,
                             reloading := 0\<rparr>)\<rparr>)"

subsection \<open>Game.update\<close>

text \<open>
  One iteration of the loop over \<open>self.weapons.values()\<close>, for the dictionary entry
  of weapon \<open>w\<close>.  \<open>finish_reload\<close> is called as the source calls it: without an
  argument, so it works on \<open>self.weapons[self.current_weapon]\<close>.
\<close>

definition tick_weapon :: "real \<Rightarrow> weapon \<Rightarrow> game \<Rightarrow> game" where
  "tick_weapon dt w g =
     (let g1 = (if cooldown (weapons g w) > 0
                then g\<lparr>weapons := (weapons g)
                          (w := (weapons g w)\<lparr>cooldown := cooldown (weapons g w) - dt\<rparr>)\<rparr>
                else g)
      in if reloading (weapons g1 w) > 0 then
           let g2 = g1\<lparr>weapons := (weapons g1)
                          (w := (weapons g1 w)\<lparr>reloading := reloading (weapons g1 w) - dt\<rparr>)\<rparr>
           in if reloading (weapons g2 w) \<le> 0 then finish_reload g2 else g2
         else g1)"

text \<open>The dictionary keeps its insertion order: pistol, rifle, shotgun.\<close>

definition tick_weapons :: "real \<Rightarrow> game \<Rightarrow> game" where
  "tick_weapons dt g = tick_weapon dt Shotgun (tick_weapon dt Rifle (tick_weapon dt Pistol g))"

definition auto_reload :: "game \<Rightarrow> game" where
  "auto_reload g =
     (let weapon_data = weapons g (current_weapon g)
      in if ammo weapon_data = 0 \<and> reloading weapon_data = 0 \<and> reserve weapon_data > 0
         then reload g else g)"

definition tick_enemies :: "real \<Rightarrow> game \<times> rng \<Rightarrow> game \<times> rng" where
  "tick_enemies dt gr =
     (let (g, r) = gr;
          (es, r1) = update_enemies dt (camera.position (camera g)) (enemies g) r
      in (g\<lparr>enemies := filter enemy.alive es\<rparr>, r1))"

definition tick_particles :: "real \<Rightarrow> game \<Rightarrow> game" where
  "tick_particles dt g =
     g\<lparr>particles := filter particle.alive (map (particle_update dt) (particles g))\<rparr>"

definition tick_kill_feed :: "real \<Rightarrow> game \<Rightarrow> game" where
  "tick_kill_feed dt g =
     g\<lparr>kill_feed := filter (\<lambda>item. time item > 0)
                       (map (\<lambda>item. item\<lparr>time := time item - dt\<rparr>) (kill_feed g))\<rparr>"

definition tick_shake :: "real \<Rightarrow> game \<Rightarrow> game" where
  "tick_shake dt g = (if shake_timer g > 0 then g\<lparr>shake_timer := shake_timer g - dt\<rparr> else g)"

text \<open>Everything \<open>update\<close> does before the final replenishment test.\<close>

definition tick_entities :: "real \<Rightarrow> game \<times> rng \<Rightarrow> game \<times> rng" where
  "tick_entities dt gr =
     (let (g, r) = gr;
          (g1, r1) = tick_enemies dt (auto_reload (tick_weapons dt g), r)
      in (tick_shake dt (tick_kill_feed dt (tick_particles dt g1)), r1))"

definition wave_due :: "game \<Rightarrow> bool" where
  "wave_due g = (game_mode g = Some survival \<and> length (enemies g) = 0)"

definition replenish :: "game \<times> rng \<Rightarrow> game \<times> rng" where
  "replenish gr =
     (let (g, r) = gr in
      if wave_due g then spawn_wave (g\<lparr>wave := wave g + 1\<rparr>, r)
      else if game_mode g = Some target \<and> length (enemies g) = 0 then (spawn_targets g, r)
      else (g, r))"

definition update :: "real \<Rightarrow> game \<times> rng \<Rightarrow> game \<times> rng" where
  "update dt gr =
     (if state (fst gr) \<noteq> PLAYING then gr else replenish (tick_entities dt gr))"

subsection \<open>Sequences of intents and ticks\<close>

text \<open>
  The calls the main loop makes on the \<open>Game\<close> object: the four methods, the
  assignment to \<open>current_weapon\<close> (keys 1, 2, 3), the assignments to \<open>state\<close>
  (pause, resume, back to the menu) and \<open>update(dt)\<close>.  The main loop makes some of
  them only in some states; a sequence here may make them in any state, which
  covers every sequence the main loop can produce.
\<close>

datatype event =
    Tick real
  | Fire
  | Reload
  | Switch weapon
  | Start mode
  | SetState game_state

fun step :: "event \<Rightarrow> game \<times> rng \<Rightarrow> game \<times> rng" where
  "step (Tick dt) gr = update dt gr"
| "step Fire gr = shoot gr"
| "step Reload gr = (reload (fst gr), snd gr)"
| "step (Switch w) gr = ((fst gr)\<lparr>current_weapon := w\<rparr>, snd gr)"
| "step (Start m) gr = start_game m gr"
| "step (SetState s) gr = ((fst gr)\<lparr>state := s\<rparr>, snd gr)"

fun run :: "event list \<Rightarrow> game \<times> rng \<Rightarrow> game \<times> rng" where
  "run [] gr = gr"
| "run (ev # evs) gr = run evs (step ev gr)"

section \<open>Notions used to state the properties\<close>

subsection \<open>Geometry of a ray\<close>

definition cross :: "vector3 \<Rightarrow> vector3 \<Rightarrow> vector3" where
  "cross u v =
     Vector3 (y u * z v - z u * y v) (z u * x v - x u * z v) (x u * y v - y u * x v)"

text \<open>Distance of the point \<open>p\<close> from the line through \<open>origin\<close> along \<open>direction\<close>.\<close>

definition perp_dist :: "vector3 \<Rightarrow> vector3 \<Rightarrow> vector3 \<Rightarrow> real" where
  "perp_dist origin direction p =
     length_v (cross (vsub p origin) direction) / length_v direction"

text \<open>Projection of (position - origin) onto the direction.\<close>

definition proj_of :: "vector3 \<Rightarrow> vector3 \<Rightarrow> enemy \<Rightarrow> real" where
  "proj_of origin direction e = dot (vsub (enemy.position e) origin) direction"

text \<open>
  A candidate: alive, not behind the origin, and nearer to the line of the ray than
  its size-radius.
\<close>

definition candidate :: "vector3 \<Rightarrow> vector3 \<Rightarrow> enemy \<Rightarrow> bool" where
  "candidate origin direction e \<longleftrightarrow>
     enemy.alive e \<and> 0 \<le> proj_of origin direction e \<and>
     perp_dist origin direction (enemy.position e) < enemy.size e"

text \<open>The test the loop of \<open>raycast\<close> makes on one enemy, apart from the comparison
  with the closest distance so far.\<close>

definition in_reach :: "vector3 \<Rightarrow> vector3 \<Rightarrow> enemy \<Rightarrow> bool" where
  "in_reach origin direction e \<longleftrightarrow>
     enemy.alive e \<and> 0 \<le> proj_of origin direction e \<and>
     length_v (vsub (vadd origin (vmul direction (proj_of origin direction e)))
                    (enemy.position e)) < enemy.size e"

subsection \<open>The effect of a shot\<close>

text \<open>The fields a pellet never writes are the same in \<open>g\<close> and \<open>g'\<close>.\<close>

definition combat_frame :: "game \<Rightarrow> game \<Rightarrow> bool" where
  "combat_frame g g' \<longleftrightarrow>
     state g' = state g \<and> camera g' = camera g \<and> wave g' = wave g \<and>
     player_health g' = player_health g \<and> game.max_health g' = game.max_health g \<and>
     current_weapon g' = current_weapon g \<and> weapons g' = weapons g \<and>
     game_mode g' = game_mode g \<and> enemies_per_wave g' = enemies_per_wave g \<and>
     shake_amount g' = shake_amount g \<and> shake_timer g' = shake_timer g"



text \<open>The enemy one pellet hits: the raycast of \<open>fire_pellet\<close> with its two spread draws.\<close>

definition pellet_target :: "weapon_config \<Rightarrow> game \<Rightarrow> rng \<Rightarrow> nat option" where
  "pellet_target config g r =
     raycast (enemies g) (camera.position (camera g))
       (normalize_v (Vector3
          (x (get_forward (camera g)) + fst (uniform (- spread config) (spread config) r))
          (y (get_forward (camera g))
             + fst (uniform (- spread config) (spread config)
                      (snd (uniform (- spread config) (spread config) r))))
          (z (get_forward (camera g)))))"

text \<open>
  What \<open>n\<close> pellets of damage \<open>dmg\<close> can have done between \<open>g\<close> and \<open>g'\<close>: the enemy
  list keeps its length, an enemy that was not alive is untouched, every enemy has
  lost between 0 and \<open>n * dmg\<close> health, and the kill count has grown by at most \<open>n\<close>.
\<close>

definition shot_effect :: "real \<Rightarrow> nat \<Rightarrow> game \<Rightarrow> game \<Rightarrow> bool" where
  "shot_effect dmg n g g' \<longleftrightarrow>
     combat_frame g g' \<and> length (enemies g') = length (enemies g) \<and>
     (\<forall>j<length (enemies g).
        (\<not> enemy.alive (enemies g ! j) \<longrightarrow> enemies g' ! j = enemies g ! j) \<and>
        enemy.health (enemies g ! j) - real n * dmg \<le> enemy.health (enemies g' ! j) \<and>
        enemy.health (enemies g' ! j) \<le> enemy.health (enemies g ! j)) \<and>
     kills g \<le> kills g' \<and> kills g' \<le> kills g + int n"

text \<open>The guard of \<open>shoot\<close>.\<close>

definition fire_rejected :: "game \<Rightarrow> bool" where
  "fire_rejected g \<longleftrightarrow>
     cooldown (weapons g (current_weapon g)) > 0 \<or> reloading (weapons g (current_weapon g)) > 0
     \<or> ammo (weapons g (current_weapon g)) \<le> 0"

subsection \<open>Weapon state\<close>

text \<open>Every magazine is within its capacity and no reserve is negative.\<close>

definition ammo_ok :: "game \<Rightarrow> bool" where
  "ammo_ok g \<longleftrightarrow>
     (\<forall>w. 0 \<le> ammo (weapons g w) \<and> ammo (weapons g w) \<le> max_ammo (WEAPONS w) \<and>
          0 \<le> reserve (weapons g w))"

text \<open>The two timer decrements of one loop iteration, before \<open>finish_reload\<close>.\<close>

definition tick_timers :: "real \<Rightarrow> weapon \<Rightarrow> game \<Rightarrow> game" where
  "tick_timers dt w g =
     g\<lparr>weapons := (weapons g)
          (w := (weapons g w)
             \<lparr>cooldown := (if cooldown (weapons g w) > 0 then cooldown (weapons g w) - dt
                            else cooldown (weapons g w)),
              reloading := (if reloading (weapons g w) > 0 then reloading (weapons g w) - dt
                             else reloading (weapons g w))\<rparr>)\<rparr>"

text \<open>Every cooldown is at least \<open>- D\<close>.\<close>

definition cooldown_from :: "real \<Rightarrow> game \<Rightarrow> bool" where
  "cooldown_from D g \<longleftrightarrow> (\<forall>w. - D \<le> cooldown (weapons g w))"

text \<open>A tick is within \<open>D\<close> when its dt is between 0 and \<open>D\<close>.\<close>

fun tick_within :: "real \<Rightarrow> event \<Rightarrow> bool" where
  "tick_within D (Tick dt) = (0 \<le> dt \<and> dt \<le> D)"
| "tick_within D ev = True"

subsection \<open>Pellets on camera, enemies and kill count alone\<close>

text \<open>The part of the game one pellet reads and writes when the outcome of interest
  is who was hit: camera, enemies, kill count.\<close>

definition combat_core :: "game \<Rightarrow> camera \<times> enemy list \<times> int" where
  "combat_core g = (camera g, enemies g, kills g)"

text \<open>One pellet on that part: \<open>fire_pellet\<close> without particles, score and kill feed.\<close>

definition pellet_core :: "weapon_config \<Rightarrow> rng \<Rightarrow> camera \<times> enemy list \<times> int
    \<Rightarrow> camera \<times> enemy list \<times> int" where
  "pellet_core config r core =
     (let (cam, es, k) = core in
      case raycast es (camera.position cam)
             (normalize_v (Vector3
                (x (get_forward cam) + fst (uniform (- spread config) (spread config) r))
                (y (get_forward cam)
                   + fst (uniform (- spread config) (spread config)
                            (snd (uniform (- spread config) (spread config) r))))
                (z (get_forward cam)))) of
        None \<Rightarrow> (cam, es, k)
      | Some i \<Rightarrow> (cam, es[i := fst (hit (es ! i) (damage config))],
                   if snd (hit (es ! i) (damage config)) then k + 1 else k))"

subsection \<open>Concrete states\<close>

text \<open>A random source that always yields the middle draw: every spread is 0.\<close>

definition centre_rng :: rng where
  "centre_rng = (\<lambda>_. 2 ^ 52)"

text \<open>The camera pose \<open>start_game\<close> sets: it looks along the negative z axis.\<close>

definition aim_camera :: camera where
  "aim_camera = \<lparr>camera.position = Vector3 0 2 0, yaw = 0, pitch = 0\<rparr>"

text \<open>A tank standing \<open>d\<close> in front of that camera, worn down to 10 health.\<close>

definition weak_tank :: "real \<Rightarrow> enemy" where
  "weak_tank d = (Enemy (Vector3 0 1 (- d)) tank)\<lparr>health := 10\<rparr>"

text \<open>Shotgun selected and ready; six worn tanks, or one fresh tank, in the line of
  fire.\<close>

definition six_tanks :: game where
  "six_tanks =
     Game\<lparr>state := PLAYING, current_weapon := Shotgun, game_mode := Some survival,
          enemies := [weak_tank 10, weak_tank 12, weak_tank 14, weak_tank 16, weak_tank 18,
                      weak_tank 20]\<rparr>"

definition one_tank :: game where
  "one_tank =
     Game\<lparr>state := PLAYING, current_weapon := Shotgun, game_mode := Some survival,
          enemies := [Enemy (Vector3 0 1 (- 10)) tank]\<rparr>"

subsection \<open>Counting spawned waves\<close>

text \<open>Number of calls of \<open>spawn_wave\<close> an event makes, read off \<open>start_game\<close> and
  \<open>update\<close>: the survival branch of \<open>start_game\<close>, and a tick in state PLAYING whose
  replenishment test \<open>wave_due\<close> succeeds.\<close>

fun waves_spawned_by :: "event \<Rightarrow> game \<times> rng \<Rightarrow> nat" where
  "waves_spawned_by (Tick dt) gr =
     (if state (fst gr) = PLAYING \<and> wave_due (fst (tick_entities dt gr)) then 1 else 0)"
| "waves_spawned_by (Start m) gr = (if m = target then 0 else 1)"
| "waves_spawned_by ev gr = 0"

fun waves_spawned :: "event list \<Rightarrow> game \<times> rng \<Rightarrow> nat" where
  "waves_spawned [] gr = 0"
| "waves_spawned (ev # evs) gr = waves_spawned_by ev gr + waves_spawned evs (step ev gr)"

text \<open>The state in which every enemy of the live set has been eliminated.\<close>

definition all_killed :: "game \<Rightarrow> game" where
  "all_killed g = g\<lparr>enemies := map (\<lambda>e. e\<lparr>enemy.alive := False\<rparr>) (enemies g)\<rparr>"

section \<open>Properties\<close>

subsection \<open>Vectors\<close>

lemma Vector3_sel [simp]:
  "x (Vector3 a b c) = a" "y (Vector3 a b c) = b" "z (Vector3 a b c) = c"
  by (simp_all add: Vector3_def)

lemma unit_sq: "length_v d = 1 \<Longrightarrow> (x d)\<^sup>2 + (y d)\<^sup>2 + (z d)\<^sup>2 = 1"
  by (simp add: length_v_def)

lemma rejection_sq:
  fixes wx wy wz dx dy dz :: real
  assumes "dx\<^sup>2 + dy\<^sup>2 + dz\<^sup>2 = 1"
  shows "(dx * (wx * dx + wy * dy + wz * dz) - wx)\<^sup>2
       + (dy * (wx * dx + wy * dy + wz * dz) - wy)\<^sup>2
       + (dz * (wx * dx + wy * dy + wz * dz) - wz)\<^sup>2
       = (wy * dz - wz * dy)\<^sup>2 + (wz * dx - wx * dz)\<^sup>2 + (wx * dy - wy * dx)\<^sup>2"
proof -
  have "(dx * (wx * dx + wy * dy + wz * dz) - wx)\<^sup>2
       + (dy * (wx * dx + wy * dy + wz * dz) - wy)\<^sup>2
       + (dz * (wx * dx + wy * dy + wz * dz) - wz)\<^sup>2
       = (wy * dz - wz * dy)\<^sup>2 + (wz * dx - wx * dz)\<^sup>2 + (wx * dy - wy * dx)\<^sup>2
         + (1 - (dx\<^sup>2 + dy\<^sup>2 + dz\<^sup>2))
           * ((wx\<^sup>2 + wy\<^sup>2 + wz\<^sup>2) - (wx * dx + wy * dy + wz * dz)\<^sup>2)"
    by (simp add: power2_eq_square algebra_simps)
  with assms show ?thesis by simp
qed

text \<open>For a direction of length 1 the distance the loop computes is the distance
  from the line.\<close>

lemma code_dist_is_perp_dist:
  assumes "length_v direction = 1"
  shows "length_v (vsub (vadd origin (vmul direction (dot (vsub p origin) direction))) p)
           = perp_dist origin direction p"
proof -
  let ?wx = "x p - x origin" and ?wy = "y p - y origin" and ?wz = "z p - z origin"
  let ?s = "?wx * x direction + ?wy * y direction + ?wz * z direction"
  have s: "dot (vsub p origin) direction = ?s"
    by (simp add: dot_def vsub_def)
  have "length_v (vsub (vadd origin (vmul direction ?s)) p)
      = sqrt ((x direction * ?s - ?wx)\<^sup>2 + (y direction * ?s - ?wy)\<^sup>2
              + (z direction * ?s - ?wz)\<^sup>2)"
    by (simp add: length_v_def vsub_def vadd_def vmul_def algebra_simps)
  also have "\<dots> = sqrt ((?wy * z direction - ?wz * y direction)\<^sup>2
                      + (?wz * x direction - ?wx * z direction)\<^sup>2
                      + (?wx * y direction - ?wy * x direction)\<^sup>2)"
    by (simp only: rejection_sq [OF unit_sq [OF assms]])
  also have "\<dots> = perp_dist origin direction p"
    using assms by (simp add: perp_dist_def length_v_def cross_def vsub_def)
  finally show ?thesis by (simp only: s)
qed

lemma in_reach_candidate:
  "length_v direction = 1 \<Longrightarrow> in_reach origin direction e = candidate origin direction e"
  by (simp add: in_reach_def candidate_def proj_of_def code_dist_is_perp_dist)

subsection \<open>Raycast\<close>

lemma raycast_from_step:
  "raycast_from i (e # es) origin direction (ce, cd) =
     (if in_reach origin direction e \<and> below (proj_of origin direction e) cd
      then raycast_from (Suc i) es origin direction (Some i, Some (proj_of origin direction e))
      else raycast_from (Suc i) es origin direction (ce, cd))"
  by (auto simp: in_reach_def proj_of_def Let_def)

declare raycast_from.simps(2) [simp del]

text \<open>
  What the loop has found after the enemies \<open>es\<close>, started at index \<open>i\<close> with the
  closest enemy \<open>ce\<close> at distance \<open>cd\<close>: either nothing new, or an enemy in reach of
  \<open>es\<close>; its distance is at most that of every enemy in reach and at most \<open>cd\<close>.
\<close>

lemma raycast_from_inv:
  "(raycast_from i es origin direction (ce, cd) = (ce, cd) \<or>
    (\<exists>k<length es. raycast_from i es origin direction (ce, cd)
         = (Some (i + k), Some (proj_of origin direction (es ! k))) \<and>
       in_reach origin direction (es ! k) \<and> below (proj_of origin direction (es ! k)) cd)) \<and>
   (\<forall>j<length es. in_reach origin direction (es ! j) \<longrightarrow>
      (\<exists>p. snd (raycast_from i es origin direction (ce, cd)) = Some p \<and>
           p \<le> proj_of origin direction (es ! j))) \<and>
   (\<forall>c. cd = Some c \<longrightarrow>
      (\<exists>p. snd (raycast_from i es origin direction (ce, cd)) = Some p \<and> p \<le> c))"
proof (induction es arbitrary: i ce cd)
  case Nil
  show ?case by simp
next
  case (Cons e es)
  let ?p = "proj_of origin direction e"
  show ?case
  proof (cases "in_reach origin direction e \<and> below ?p cd")
    case True
    have eq: "raycast_from i (e # es) origin direction (ce, cd)
                = raycast_from (Suc i) es origin direction (Some i, Some ?p)"
      using True by (simp add: raycast_from_step)
    note IH = Cons.IH [of "Suc i" "Some i" "Some ?p"]
    have A: "raycast_from i (e # es) origin direction (ce, cd) = (ce, cd) \<or>
      (\<exists>k<length (e # es). raycast_from i (e # es) origin direction (ce, cd)
         = (Some (i + k), Some (proj_of origin direction ((e # es) ! k))) \<and>
       in_reach origin direction ((e # es) ! k) \<and>
       below (proj_of origin direction ((e # es) ! k)) cd)"
    proof -
      from IH have
        "raycast_from (Suc i) es origin direction (Some i, Some ?p) = (Some i, Some ?p) \<or>
        (\<exists>k<length es. raycast_from (Suc i) es origin direction (Some i, Some ?p)
           = (Some (Suc i + k), Some (proj_of origin direction (es ! k))) \<and>
         in_reach origin direction (es ! k) \<and>
         below (proj_of origin direction (es ! k)) (Some ?p))"
        by blast
      then show ?thesis
      proof
        assume "raycast_from (Suc i) es origin direction (Some i, Some ?p) = (Some i, Some ?p)"
        with eq True have "0 < length (e # es) \<and>
           raycast_from i (e # es) origin direction (ce, cd)
             = (Some (i + 0), Some (proj_of origin direction ((e # es) ! 0))) \<and>
           in_reach origin direction ((e # es) ! 0) \<and>
           below (proj_of origin direction ((e # es) ! 0)) cd"
          by simp
        then show ?thesis by blast
      next
        assume "\<exists>k<length es. raycast_from (Suc i) es origin direction (Some i, Some ?p)
           = (Some (Suc i + k), Some (proj_of origin direction (es ! k))) \<and>
         in_reach origin direction (es ! k) \<and>
         below (proj_of origin direction (es ! k)) (Some ?p)"
        then obtain k where k: "k < length es"
          "raycast_from (Suc i) es origin direction (Some i, Some ?p)
           = (Some (Suc i + k), Some (proj_of origin direction (es ! k)))"
          "in_reach origin direction (es ! k)"
          "below (proj_of origin direction (es ! k)) (Some ?p)"
          by blast
        have "below (proj_of origin direction (es ! k)) cd"
          using k(4) True by (auto simp: below_def split: option.splits)
        with k eq have "Suc k < length (e # es) \<and>
           raycast_from i (e # es) origin direction (ce, cd)
             = (Some (i + Suc k), Some (proj_of origin direction ((e # es) ! Suc k))) \<and>
           in_reach origin direction ((e # es) ! Suc k) \<and>
           below (proj_of origin direction ((e # es) ! Suc k)) cd"
          by simp
        then show ?thesis by blast
      qed
    qed
    from IH obtain q where
      q: "snd (raycast_from (Suc i) es origin direction (Some i, Some ?p)) = Some q" "q \<le> ?p"
      by blast
    have B: "\<forall>j<length (e # es). in_reach origin direction ((e # es) ! j) \<longrightarrow>
      (\<exists>p. snd (raycast_from i (e # es) origin direction (ce, cd)) = Some p \<and>
           p \<le> proj_of origin direction ((e # es) ! j))"
    proof (intro allI impI)
      fix j assume j: "j < length (e # es)" "in_reach origin direction ((e # es) ! j)"
      show "\<exists>p. snd (raycast_from i (e # es) origin direction (ce, cd)) = Some p \<and>
           p \<le> proj_of origin direction ((e # es) ! j)"
      proof (cases j)
        case 0
        then show ?thesis using q eq by simp
      next
        case (Suc j')
        then show ?thesis using IH j eq by simp
      qed
    qed
    have C: "\<forall>c. cd = Some c \<longrightarrow>
      (\<exists>p. snd (raycast_from i (e # es) origin direction (ce, cd)) = Some p \<and> p \<le> c)"
      using q eq True by (auto simp: below_def)
    from A B C show ?thesis by blast
  next
    case False
    have eq: "raycast_from i (e # es) origin direction (ce, cd)
                = raycast_from (Suc i) es origin direction (ce, cd)"
      using False by (auto simp add: raycast_from_step)
    note IH = Cons.IH [of "Suc i" ce cd]
    have A: "raycast_from i (e # es) origin direction (ce, cd) = (ce, cd) \<or>
      (\<exists>k<length (e # es). raycast_from i (e # es) origin direction (ce, cd)
         = (Some (i + k), Some (proj_of origin direction ((e # es) ! k))) \<and>
       in_reach origin direction ((e # es) ! k) \<and>
       below (proj_of origin direction ((e # es) ! k)) cd)"
    proof -
      from IH have "raycast_from (Suc i) es origin direction (ce, cd) = (ce, cd) \<or>
        (\<exists>k<length es. raycast_from (Suc i) es origin direction (ce, cd)
           = (Some (Suc i + k), Some (proj_of origin direction (es ! k))) \<and>
         in_reach origin direction (es ! k) \<and> below (proj_of origin direction (es ! k)) cd)"
        by blast
      then show ?thesis
      proof
        assume "raycast_from (Suc i) es origin direction (ce, cd) = (ce, cd)"
        then show ?thesis using eq by simp
      next
        assume "\<exists>k<length es. raycast_from (Suc i) es origin direction (ce, cd)
           = (Some (Suc i + k), Some (proj_of origin direction (es ! k))) \<and>
         in_reach origin direction (es ! k) \<and> below (proj_of origin direction (es ! k)) cd"
        then obtain k where k: "k < length es"
          "raycast_from (Suc i) es origin direction (ce, cd)
           = (Some (Suc i + k), Some (proj_of origin direction (es ! k)))"
          "in_reach origin direction (es ! k)" "below (proj_of origin direction (es ! k)) cd"
          by blast
        with eq have "Suc k < length (e # es) \<and>
           raycast_from i (e # es) origin direction (ce, cd)
             = (Some (i + Suc k), Some (proj_of origin direction ((e # es) ! Suc k))) \<and>
           in_reach origin direction ((e # es) ! Suc k) \<and>
           below (proj_of origin direction ((e # es) ! Suc k)) cd"
          by simp
        then show ?thesis by blast
      qed
    qed
    have B: "\<forall>j<length (e # es). in_reach origin direction ((e # es) ! j) \<longrightarrow>
      (\<exists>p. snd (raycast_from i (e # es) origin direction (ce, cd)) = Some p \<and>
           p \<le> proj_of origin direction ((e # es) ! j))"
    proof (intro allI impI)
      fix j assume j: "j < length (e # es)" "in_reach origin direction ((e # es) ! j)"
      show "\<exists>p. snd (raycast_from i (e # es) origin direction (ce, cd)) = Some p \<and>
           p \<le> proj_of origin direction ((e # es) ! j)"
      proof (cases j)
        case 0
        with j False obtain c where c: "cd = Some c" "c \<le> ?p"
          by (auto simp: below_def split: option.splits)
        with IH obtain p where
          "snd (raycast_from (Suc i) es origin direction (ce, cd)) = Some p" "p \<le> c"
          by blast
        then show ?thesis using 0 c eq by auto
      next
        case (Suc j')
        then show ?thesis using IH j eq by simp
      qed
    qed
    have C: "\<forall>c. cd = Some c \<longrightarrow>
      (\<exists>p. snd (raycast_from i (e # es) origin direction (ce, cd)) = Some p \<and> p \<le> c)"
      using IH eq by auto
    from A B C show ?thesis by blast
  qed
qed

lemma raycast_Some:
  assumes "raycast es origin direction = Some k"
  shows "k < length es \<and> in_reach origin direction (es ! k) \<and>
         (\<forall>j<length es. in_reach origin direction (es ! j) \<longrightarrow>
              proj_of origin direction (es ! k) \<le> proj_of origin direction (es ! j))"
proof -
  let ?R = "raycast_from 0 es origin direction (None, None)"
  note I = raycast_from_inv [of 0 es origin direction None None]
  from assms have f: "fst ?R = Some k" by (simp add: raycast_def)
  then have "?R \<noteq> (None, None)" by auto
  with I obtain k' where k': "k' < length es"
     "?R = (Some (0 + k'), Some (proj_of origin direction (es ! k')))"
     "in_reach origin direction (es ! k')" by blast
  with f have kk: "k' = k" by simp
  have "\<forall>j<length es. in_reach origin direction (es ! j) \<longrightarrow>
              proj_of origin direction (es ! k) \<le> proj_of origin direction (es ! j)"
  proof (intro allI impI)
    fix j assume "j < length es" "in_reach origin direction (es ! j)"
    with I obtain p where "snd ?R = Some p" "p \<le> proj_of origin direction (es ! j)" by blast
    with k'(2) kk show "proj_of origin direction (es ! k) \<le> proj_of origin direction (es ! j)"
      by simp
  qed
  with k' kk show ?thesis by simp
qed

lemma raycast_None:
  assumes "raycast es origin direction = None" "j < length es"
  shows "\<not> in_reach origin direction (es ! j)"
proof
  assume c: "in_reach origin direction (es ! j)"
  let ?R = "raycast_from 0 es origin direction (None, None)"
  note I = raycast_from_inv [of 0 es origin direction None None]
  from I c assms(2) obtain p where p: "snd ?R = Some p" by blast
  from assms(1) have "fst ?R = None" by (simp add: raycast_def)
  with I have "?R = (None, None)" by auto
  with p show False by simp
qed

lemma raycast_alive:
  "raycast es origin direction = Some k \<Longrightarrow> k < length es \<and> enemy.alive (es ! k)"
  using raycast_Some [of es origin direction k] by (simp add: in_reach_def)

lemma raycast_single:
  "raycast [e] origin direction = (if in_reach origin direction e then Some 0 else None)"
  by (simp add: raycast_def raycast_from_step below_def)

lemma on_ray_in_reach:
  assumes u: "length_v direction = 1" and a: "enemy.alive e" and s: "0 < enemy.size e"
    and d: "0 \<le> d" and p: "enemy.position e = vadd origin (vmul direction d)"
  shows "in_reach origin direction e"
proof -
  have dd: "x direction * x direction + y direction * y direction + z direction * z direction = 1"
    using unit_sq [OF u] by (simp add: power2_eq_square)
  have "proj_of origin direction e
          = d * (x direction * x direction + y direction * y direction + z direction * z direction)"
    by (simp add: proj_of_def p dot_def vsub_def vadd_def vmul_def algebra_simps)
  then have pr: "proj_of origin direction e = d" using dd by simp
  have "length_v (vsub (vadd origin (vmul direction d)) (enemy.position e)) = 0"
    by (simp add: p length_v_def vsub_def)
  with pr a s d show ?thesis by (simp add: in_reach_def)
qed

text \<open>
  Claim C5.  For a direction of length 1: an alive enemy with size-radius above 0
  whose centre is on the ray, at \<open>origin + d * direction\<close> with \<open>d \<ge> 0\<close>, is returned
  when it is the only enemy; an enemy whose distance from the line of the ray is more
  than its size-radius is never returned, wherever it stands in the list and
  whatever the other enemies are; an enemy whose projection onto the direction is
  negative is never returned.
\<close>

theorem raycast_geometry:
  assumes "length_v direction = 1"
  shows "(enemy.alive e \<and> 0 < enemy.size e \<and> 0 \<le> d \<and>
            enemy.position e = vadd origin (vmul direction d)
          \<longrightarrow> raycast [e] origin direction = Some 0) \<and>
         (\<forall>i<length es. enemy.size (es ! i) < perp_dist origin direction (enemy.position (es ! i))
            \<longrightarrow> raycast es origin direction \<noteq> Some i) \<and>
         (\<forall>i<length es. proj_of origin direction (es ! i) < 0
            \<longrightarrow> raycast es origin direction \<noteq> Some i)"
proof (intro conjI allI impI)
  assume "enemy.alive e \<and> 0 < enemy.size e \<and> 0 \<le> d \<and>
            enemy.position e = vadd origin (vmul direction d)"
  then show "raycast [e] origin direction = Some 0"
    using on_ray_in_reach [OF assms, of e d origin] by (simp add: raycast_single)
next
  fix i assume "i < length es"
    and far: "enemy.size (es ! i) < perp_dist origin direction (enemy.position (es ! i))"
  show "raycast es origin direction \<noteq> Some i"
  proof
    assume "raycast es origin direction = Some i"
    then have "candidate origin direction (es ! i)"
      using raycast_Some [of es origin direction i] in_reach_candidate [OF assms] by simp
    with far show False by (simp add: candidate_def)
  qed
next
  fix i assume "i < length es" and behind: "proj_of origin direction (es ! i) < 0"
  show "raycast es origin direction \<noteq> Some i"
  proof
    assume "raycast es origin direction = Some i"
    then have "in_reach origin direction (es ! i)"
      using raycast_Some [of es origin direction i] by simp
    with behind show False by (simp add: in_reach_def)
  qed
qed

theorem raycast_geometry_witness:
  "length_v (Vector3 0 0 (- 1)) = 1 \<and>
   raycast [Enemy (Vector3 0 2 (- 10)) normal] (Vector3 0 2 0) (Vector3 0 0 (- 1)) = Some 0 \<and>
   enemy.size ([Enemy (Vector3 1 2 (- 3)) fast, Enemy (Vector3 0 2 10) normal] ! 0)
     < perp_dist (Vector3 0 2 0) (Vector3 0 0 (- 1))
         (enemy.position ([Enemy (Vector3 1 2 (- 3)) fast, Enemy (Vector3 0 2 10) normal] ! 0)) \<and>
   raycast [Enemy (Vector3 1 2 (- 3)) fast, Enemy (Vector3 0 2 10) normal]
       (Vector3 0 2 0) (Vector3 0 0 (- 1)) \<noteq> Some 0 \<and>
   proj_of (Vector3 0 2 0) (Vector3 0 0 (- 1))
       ([Enemy (Vector3 1 2 (- 3)) fast, Enemy (Vector3 0 2 10) normal] ! 1) < 0 \<and>
   raycast [Enemy (Vector3 1 2 (- 3)) fast, Enemy (Vector3 0 2 10) normal]
       (Vector3 0 2 0) (Vector3 0 0 (- 1)) \<noteq> Some 1"
proof -
  have u: "length_v (Vector3 0 0 (- 1)) = 1" by (simp add: length_v_def)
  have far: "enemy.size ([Enemy (Vector3 1 2 (- 3)) fast, Enemy (Vector3 0 2 10) normal] ! 0)
     < perp_dist (Vector3 0 2 0) (Vector3 0 0 (- 1))
         (enemy.position ([Enemy (Vector3 1 2 (- 3)) fast, Enemy (Vector3 0 2 10) normal] ! 0))"
    by (simp add: perp_dist_def cross_def vsub_def length_v_def)
  have behind: "proj_of (Vector3 0 2 0) (Vector3 0 0 (- 1))
       ([Enemy (Vector3 1 2 (- 3)) fast, Enemy (Vector3 0 2 10) normal] ! 1) < 0"
    by (simp add: proj_of_def dot_def vsub_def)
  have on: "enemy.alive (Enemy (Vector3 0 2 (- 10)) normal) \<and>
     0 < enemy.size (Enemy (Vector3 0 2 (- 10)) normal) \<and> (0::real) \<le> 10 \<and>
     enemy.position (Enemy (Vector3 0 2 (- 10)) normal)
       = vadd (Vector3 0 2 0) (vmul (Vector3 0 0 (- 1)) 10)"
    by (simp add: vadd_def vmul_def)
  show ?thesis
    using raycast_geometry [OF u, of "Enemy (Vector3 0 2 (- 10)) normal" 10 "Vector3 0 2 0"
        "[Enemy (Vector3 1 2 (- 3)) fast, Enemy (Vector3 0 2 10) normal]"] u far behind on
    by simp
qed

lemma combat_frame_refl [simp]: "combat_frame g g"
  by (simp add: combat_frame_def)

lemma combat_frame_trans: "combat_frame g g' \<Longrightarrow> combat_frame g' g'' \<Longrightarrow> combat_frame g g''"
  by (simp add: combat_frame_def)

lemma explosion_loop_effect:
  "combat_frame (fst gr) (fst (explosion_loop n pos gr)) \<and>
   enemies (fst (explosion_loop n pos gr)) = enemies (fst gr) \<and>
   game.score (fst (explosion_loop n pos gr)) = game.score (fst gr) \<and>
   kills (fst (explosion_loop n pos gr)) = kills (fst gr) \<and>
   kill_feed (fst (explosion_loop n pos gr)) = kill_feed (fst gr) \<and>
   length (particles (fst (explosion_loop n pos gr))) = length (particles (fst gr)) + n"
proof (induction n arbitrary: gr)
  case 0
  show ?case by simp
next
  case (Suc n)
  obtain g r where gr: "gr = (g, r)" by (cases gr)
  show ?case
    unfolding gr explosion_loop.simps Let_def split_def
    using Suc.IH by (simp add: combat_frame_def)
qed

lemma hit_fields:
  "enemy.health (fst (hit e dmg)) = enemy.health e - dmg"
  "enemy.alive (fst (hit e dmg)) = (enemy.alive e \<and> \<not> enemy.health e - dmg \<le> 0)"
  "snd (hit e dmg) = (enemy.health e - dmg \<le> 0)"
  "enemy.position (fst (hit e dmg)) = enemy.position e"
  "enemy.size (fst (hit e dmg)) = enemy.size e"
  "enemy.score (fst (hit e dmg)) = enemy.score e"
  "enemy_type (fst (hit e dmg)) = enemy_type e"
  by (simp_all add: hit_def Let_def)

lemma fire_pellet_miss:
  "pellet_target config g r = None \<Longrightarrow> fst (fire_pellet config (g, r)) = g"
  by (simp add: fire_pellet_def pellet_target_def Let_def split_def)

lemma fire_pellet_hit:
  assumes "pellet_target config g r = Some i"
  shows "combat_frame g (fst (fire_pellet config (g, r))) \<and>
         enemies (fst (fire_pellet config (g, r)))
           = (enemies g)[i := fst (hit (enemies g ! i) (damage config))] \<and>
         kills (fst (fire_pellet config (g, r)))
           = (if snd (hit (enemies g ! i) (damage config)) then kills g + 1 else kills g) \<and>
         game.score (fst (fire_pellet config (g, r)))
           = (if snd (hit (enemies g ! i) (damage config))
              then game.score g + enemy.score (enemies g ! i) else game.score g) \<and>
         length (particles (fst (fire_pellet config (g, r))))
           = (if snd (hit (enemies g ! i) (damage config))
              then length (particles g) + 15 else length (particles g))"
proof (cases "snd (hit (enemies g ! i) (damage config))")
  case True
  then show ?thesis
    using assms
    by (simp add: fire_pellet_def pellet_target_def Let_def split_def create_explosion_def
        explosion_loop_effect [THEN conjunct1, unfolded combat_frame_def] explosion_loop_effect
        add_kill_feed_def combat_frame_def hit_fields)
next
  case False
  then show ?thesis
    using assms
    by (simp add: fire_pellet_def pellet_target_def Let_def split_def combat_frame_def)
qed

lemma shot_effect_0: "shot_effect dmg 0 g g"
  by (simp add: shot_effect_def)

lemma shot_effect_trans:
  assumes "shot_effect dmg m g g'" "shot_effect dmg n g' g''"
  shows "shot_effect dmg (m + n) g g''"
proof -
  have len: "length (enemies g') = length (enemies g)" "length (enemies g'') = length (enemies g)"
    using assms by (simp_all add: shot_effect_def)
  have "\<forall>j<length (enemies g).
        (\<not> enemy.alive (enemies g ! j) \<longrightarrow> enemies g'' ! j = enemies g ! j) \<and>
        enemy.health (enemies g ! j) - real (m + n) * dmg \<le> enemy.health (enemies g'' ! j) \<and>
        enemy.health (enemies g'' ! j) \<le> enemy.health (enemies g ! j)"
  proof (intro allI impI)
    fix j assume j: "j < length (enemies g)"
    from assms(1) j have a:
      "\<not> enemy.alive (enemies g ! j) \<longrightarrow> enemies g' ! j = enemies g ! j"
      "enemy.health (enemies g ! j) - real m * dmg \<le> enemy.health (enemies g' ! j)"
      "enemy.health (enemies g' ! j) \<le> enemy.health (enemies g ! j)"
      by (simp_all add: shot_effect_def)
    from assms(2) j len have b:
      "\<not> enemy.alive (enemies g' ! j) \<longrightarrow> enemies g'' ! j = enemies g' ! j"
      "enemy.health (enemies g' ! j) - real n * dmg \<le> enemy.health (enemies g'' ! j)"
      "enemy.health (enemies g'' ! j) \<le> enemy.health (enemies g' ! j)"
      by (simp_all add: shot_effect_def)
    have "\<not> enemy.alive (enemies g ! j) \<longrightarrow> enemies g'' ! j = enemies g ! j"
      using a(1) b(1) by auto
    moreover have "enemy.health (enemies g ! j) - real (m + n) * dmg
                     \<le> enemy.health (enemies g'' ! j)"
      using a(2) b(2) by (simp add: algebra_simps)
    moreover have "enemy.health (enemies g'' ! j) \<le> enemy.health (enemies g ! j)"
      using a(3) b(3) by simp
    ultimately show "(\<not> enemy.alive (enemies g ! j) \<longrightarrow> enemies g'' ! j = enemies g ! j) \<and>
        enemy.health (enemies g ! j) - real (m + n) * dmg \<le> enemy.health (enemies g'' ! j) \<and>
        enemy.health (enemies g'' ! j) \<le> enemy.health (enemies g ! j)"
      by blast
  qed
  moreover have "combat_frame g g''"
    using assms combat_frame_trans by (auto simp: shot_effect_def)
  moreover have "kills g \<le> kills g''" "kills g'' \<le> kills g + int (m + n)"
    using assms by (simp_all add: shot_effect_def)
  ultimately show ?thesis using len by (simp add: shot_effect_def)
qed

lemma fire_pellet_effect:
  assumes "0 \<le> damage config"
  shows "shot_effect (damage config) 1 g (fst (fire_pellet config (g, r)))"
proof (cases "pellet_target config g r")
  case None
  then show ?thesis using assms by (simp add: fire_pellet_miss shot_effect_def)
next
  case (Some i)
  note H = fire_pellet_hit [OF Some]
  from Some have i: "i < length (enemies g)" "enemy.alive (enemies g ! i)"
    using raycast_alive by (simp_all add: pellet_target_def)
  have "\<forall>j<length (enemies g).
        (\<not> enemy.alive (enemies g ! j)
           \<longrightarrow> enemies (fst (fire_pellet config (g, r))) ! j = enemies g ! j) \<and>
        enemy.health (enemies g ! j) - real 1 * damage config
           \<le> enemy.health (enemies (fst (fire_pellet config (g, r))) ! j) \<and>
        enemy.health (enemies (fst (fire_pellet config (g, r))) ! j)
           \<le> enemy.health (enemies g ! j)"
  proof (intro allI impI)
    fix j assume j: "j < length (enemies g)"
    show "(\<not> enemy.alive (enemies g ! j)
           \<longrightarrow> enemies (fst (fire_pellet config (g, r))) ! j = enemies g ! j) \<and>
        enemy.health (enemies g ! j) - real 1 * damage config
           \<le> enemy.health (enemies (fst (fire_pellet config (g, r))) ! j) \<and>
        enemy.health (enemies (fst (fire_pellet config (g, r))) ! j)
           \<le> enemy.health (enemies g ! j)"
    proof (cases "j = i")
      case True
      then show ?thesis using H i j assms by (simp add: hit_fields)
    next
      case False
      then show ?thesis using H i j assms by simp
    qed
  qed
  then show ?thesis using H by (simp add: shot_effect_def)
qed

lemma pellet_loop_effect:
  assumes "0 \<le> damage config"
  shows "shot_effect (damage config) n (fst gr) (fst (pellet_loop n config gr))"
proof (induction n arbitrary: gr)
  case 0
  show ?case by (simp add: shot_effect_0)
next
  case (Suc n)
  obtain g r where gr: "gr = (g, r)" by (cases gr)
  have "shot_effect (damage config) (1 + n) g
          (fst (pellet_loop n config (fire_pellet config (g, r))))"
    using shot_effect_trans [OF fire_pellet_effect [OF assms, of g r] Suc.IH] .
  then show ?case by (simp add: gr)
qed

lemma damage_nonneg: "0 \<le> damage (WEAPONS w)"
  by (cases w) (simp_all add: WeaponConfig_def)

lemma shoot_rejected: "fire_rejected g \<Longrightarrow> shoot (g, r) = (g, r)"
  by (auto simp add: shoot_def fire_rejected_def Let_def)

lemma shoot_accepted:
  assumes "\<not> fire_rejected g"
  shows "shot_effect (damage (WEAPONS (current_weapon g)))
           (nat (pellets (WEAPONS (current_weapon g))))
           (g\<lparr>weapons := (weapons g)
                 (current_weapon g :=
                    (weapons g (current_weapon g))
                      \<lparr>ammo := ammo (weapons g (current_weapon g)) - 1,
                       cooldown := fire_rate (WEAPONS (current_weapon g))\<rparr>),
               shake_amount := 0.15, shake_timer := 0.2\<rparr>)
           (fst (shoot (g, r)))"
proof -
  have "shoot (g, r) =
     pellet_loop (nat (pellets (WEAPONS (current_weapon g)))) (WEAPONS (current_weapon g))
       (g\<lparr>weapons := (weapons g)
                 (current_weapon g :=
                    (weapons g (current_weapon g))
                      \<lparr>ammo := ammo (weapons g (current_weapon g)) - 1,
                       cooldown := fire_rate (WEAPONS (current_weapon g))\<rparr>),
               shake_amount := 0.15, shake_timer := 0.2\<rparr>, r)"
    using assms by (auto simp add: shoot_def fire_rejected_def Let_def screen_shake_def)
  then show ?thesis
    using pellet_loop_effect [OF damage_nonneg, of "current_weapon g"
        "nat (pellets (WEAPONS (current_weapon g)))"
        "(g\<lparr>weapons := (weapons g)
                 (current_weapon g :=
                    (weapons g (current_weapon g))
                      \<lparr>ammo := ammo (weapons g (current_weapon g)) - 1,
                       cooldown := fire_rate (WEAPONS (current_weapon g))\<rparr>),
               shake_amount := 0.15, shake_timer := 0.2\<rparr>, r)"]
    by simp
qed

lemma shoot_weapons:
  "weapons (fst (shoot (g, r))) =
     (if fire_rejected g then weapons g
      else (weapons g)
             (current_weapon g :=
                (weapons g (current_weapon g))
                   \<lparr>ammo := ammo (weapons g (current_weapon g)) - 1,
                    cooldown := fire_rate (WEAPONS (current_weapon g))\<rparr>))"
  using shoot_accepted [of g r] shoot_rejected [of g r]
  by (auto simp add: shot_effect_def combat_frame_def)

lemma shoot_frame:
  "current_weapon (fst (shoot (g, r))) = current_weapon g \<and>
   state (fst (shoot (g, r))) = state g \<and>
   game_mode (fst (shoot (g, r))) = game_mode g \<and>
   enemies_per_wave (fst (shoot (g, r))) = enemies_per_wave g \<and>
   wave (fst (shoot (g, r))) = wave g \<and>
   camera (fst (shoot (g, r))) = camera g \<and>
   length (enemies (fst (shoot (g, r)))) = length (enemies g)"
  using shoot_accepted [of g r] shoot_rejected [of g r]
  by (cases "fire_rejected g") (auto simp add: shot_effect_def combat_frame_def)

lemma spawn_loop_effect:
  "\<exists>es. fst (spawn_loop n gr) = (fst gr)\<lparr>enemies := enemies (fst gr) @ es\<rparr> \<and> length es = n \<and>
        (\<forall>e\<in>set es. enemy.alive e)"
proof (induction n arbitrary: gr)
  case 0
  show ?case by simp
next
  case (Suc n)
  obtain g r where gr: "gr = (g, r)" by (cases gr)
  let ?e = "Enemy (Vector3 (fst (uniform 10 20 (snd (uniform 0 (2 * pi) r)))
                              * cos (fst (uniform 0 (2 * pi) r))) 1
                           (fst (uniform 10 20 (snd (uniform 0 (2 * pi) r)))
                              * sin (fst (uniform 0 (2 * pi) r))))
                  (fst (choice [normal, fast, tank]
                          (snd (uniform 10 20 (snd (uniform 0 (2 * pi) r))))))"
  let ?r = "snd (choice [normal, fast, tank] (snd (uniform 10 20 (snd (uniform 0 (2 * pi) r)))))"
  have step: "spawn_loop (Suc n) gr = spawn_loop n (g\<lparr>enemies := enemies g @ [?e]\<rparr>, ?r)"
    by (simp add: gr Let_def split_def)
  from Suc.IH [of "(g\<lparr>enemies := enemies g @ [?e]\<rparr>, ?r)"]
  obtain es where es:
    "fst (spawn_loop n (g\<lparr>enemies := enemies g @ [?e]\<rparr>, ?r))
       = g\<lparr>enemies := (enemies g @ [?e]) @ es\<rparr>"
    "length es = n" "\<forall>e\<in>set es. enemy.alive e"
    by auto
  have al: "enemy.alive ?e"
    by (cases "fst (choice [normal, fast, tank]
                 (snd (uniform 10 20 (snd (uniform 0 (2 * pi) r)))))") simp_all
  have "fst (spawn_loop (Suc n) gr) = (fst gr)\<lparr>enemies := enemies (fst gr) @ (?e # es)\<rparr> \<and>
        length (?e # es) = Suc n \<and> (\<forall>e\<in>set (?e # es). enemy.alive e)"
    unfolding step using es al by (simp add: gr)
  then show ?case by blast
qed

lemma spawn_wave_effect:
  "\<exists>es. fst (spawn_wave (g, r))
          = g\<lparr>kill_feed := kill_feed g
                   @ [\<lparr>message = ''Wave '' @ str_int (wave g) @ '' Starting!'', time = 3.0\<rparr>],
               enemies := enemies g @ es,
               enemies_per_wave := enemies_per_wave g + 2\<rparr> \<and>
        length es = nat (enemies_per_wave g) \<and> (\<forall>e\<in>set es. enemy.alive e)"
proof -
  let ?g1 = "add_kill_feed (''Wave '' @ str_int (wave g) @ '' Starting!'') g"
  from spawn_loop_effect [of "nat (enemies_per_wave ?g1)" "(?g1, r)"]
  obtain es where es:
    "fst (spawn_loop (nat (enemies_per_wave ?g1)) (?g1, r)) = ?g1\<lparr>enemies := enemies ?g1 @ es\<rparr>"
    "length es = nat (enemies_per_wave ?g1)" "\<forall>e\<in>set es. enemy.alive e"
    by auto
  have "fst (spawn_wave (g, r))
          = g\<lparr>kill_feed := kill_feed g
                   @ [\<lparr>message = ''Wave '' @ str_int (wave g) @ '' Starting!'', time = 3.0\<rparr>],
               enemies := enemies g @ es,
               enemies_per_wave := enemies_per_wave g + 2\<rparr>"
    using es(1) by (simp add: spawn_wave_def Let_def split_def add_kill_feed_def)
  moreover have "length es = nat (enemies_per_wave g)"
    using es(2) by (simp add: add_kill_feed_def)
  ultimately show ?thesis using es(3) by blast
qed

lemma start_game_weapons: "weapons (fst (start_game m (g, r))) = start_weapon"
proof -
  have sw: "(f(Pistol := start_weapon Pistol, Rifle := start_weapon Rifle,
               Shotgun := start_weapon Shotgun)) = start_weapon" for f
  proof
    fix w show "(f(Pistol := start_weapon Pistol, Rifle := start_weapon Rifle,
               Shotgun := start_weapon Shotgun)) w = start_weapon w"
      by (cases w) simp_all
  qed
  show ?thesis
  proof (cases m)
    case target
    then show ?thesis using sw [of "weapons g"]
      by (simp add: start_game_def Let_def spawn_targets_def)
  next
    case survival
    let ?g = "g\<lparr>game_mode := Some survival, state := PLAYING, game.score := 0, kills := 0,
                 player_health := 100, enemies := [], particles := [], kill_feed := [],
                 weapons := (weapons g)
                     (Pistol := \<lparr>ammo = 12, reserve = 36, cooldown = 0, reloading = 0\<rparr>,
                      Rifle := \<lparr>ammo = 30, reserve = 90, cooldown = 0, reloading = 0\<rparr>,
                      Shotgun := \<lparr>ammo = 8, reserve = 24, cooldown = 0, reloading = 0\<rparr>),
                 current_weapon := Pistol,
                 camera := (camera g)\<lparr>camera.position := Vector3 0 2 0, yaw := 0, pitch := 0\<rparr>,
                 wave := 1\<rparr>"
    have "start_game m (g, r) = spawn_wave (?g, r)"
      using survival by (simp add: start_game_def Let_def)
    moreover from spawn_wave_effect [of ?g r] have "weapons (fst (spawn_wave (?g, r))) = weapons ?g"
      by auto
    ultimately show ?thesis using sw [of "weapons g"] by simp
  qed
qed

lemma replenish_frame:
  "weapons (fst (replenish (g, r))) = weapons g \<and>
   current_weapon (fst (replenish (g, r))) = current_weapon g \<and>
   state (fst (replenish (g, r))) = state g \<and>
   game_mode (fst (replenish (g, r))) = game_mode g"
proof -
  from spawn_wave_effect [of "g\<lparr>wave := wave g + 1\<rparr>" r] obtain es where
    "fst (spawn_wave (g\<lparr>wave := wave g + 1\<rparr>, r))
       = g\<lparr>wave := wave g + 1,
            kill_feed := kill_feed g
               @ [\<lparr>message = ''Wave '' @ str_int (wave g + 1) @ '' Starting!'', time = 3.0\<rparr>],
            enemies := enemies g @ es,
            enemies_per_wave := enemies_per_wave g + 2\<rparr>"
    by auto
  then show ?thesis by (simp add: replenish_def spawn_targets_def)
qed

lemma tick_entities_frame:
  "weapons (fst (tick_entities dt (g, r))) = weapons (auto_reload (tick_weapons dt g)) \<and>
   current_weapon (fst (tick_entities dt (g, r))) = current_weapon (auto_reload (tick_weapons dt g)) \<and>
   state (fst (tick_entities dt (g, r))) = state (auto_reload (tick_weapons dt g)) \<and>
   game_mode (fst (tick_entities dt (g, r))) = game_mode (auto_reload (tick_weapons dt g)) \<and>
   enemies_per_wave (fst (tick_entities dt (g, r)))
     = enemies_per_wave (auto_reload (tick_weapons dt g)) \<and>
   wave (fst (tick_entities dt (g, r))) = wave (auto_reload (tick_weapons dt g))"
  by (simp add: tick_entities_def tick_enemies_def tick_particles_def tick_kill_feed_def
      tick_shake_def split_def Let_def)

lemma update_weapons:
  "weapons (fst (update dt (g, r))) =
     (if state g \<noteq> PLAYING then weapons g else weapons (auto_reload (tick_weapons dt g)))"
proof (cases "state g \<noteq> PLAYING")
  case True
  then show ?thesis by (simp add: update_def)
next
  case False
  obtain g1 r1 where t: "tick_entities dt (g, r) = (g1, r1)" by (cases "tick_entities dt (g, r)")
  have "weapons (fst (update dt (g, r))) = weapons g1"
    using False replenish_frame [of g1 r1] by (simp add: update_def t)
  moreover have "weapons g1 = weapons (auto_reload (tick_weapons dt g))"
    using tick_entities_frame [of dt g r] by (simp add: t)
  ultimately show ?thesis using False by simp
qed

lemma reload_fields:
  "ammo (weapons (reload g) w) = ammo (weapons g w)"
  "reserve (weapons (reload g) w) = reserve (weapons g w)"
  "cooldown (weapons (reload g) w) = cooldown (weapons g w)"
  "current_weapon (reload g) = current_weapon g"
  by (simp_all add: reload_def Let_def)

lemma reload_ammo_ok: "ammo_ok g \<Longrightarrow> ammo_ok (reload g)"
  by (simp add: ammo_ok_def reload_fields)

lemma finish_reload_ammo_ok:
  assumes "ammo_ok g"
  shows "ammo_ok (finish_reload g)"
proof -
  have "0 \<le> ammo (weapons (finish_reload g) w) \<and>
        ammo (weapons (finish_reload g) w) \<le> max_ammo (WEAPONS w) \<and>
        0 \<le> reserve (weapons (finish_reload g) w)" for w
    using assms [unfolded ammo_ok_def, rule_format, of w]
      assms [unfolded ammo_ok_def, rule_format, of "current_weapon g"]
    by (auto simp add: finish_reload_def Let_def)
  then show ?thesis by (simp add: ammo_ok_def)
qed

lemma ammo_ok_same_rounds:
  assumes "\<And>w. ammo (weapons g' w) = ammo (weapons g w)"
    and "\<And>w. reserve (weapons g' w) = reserve (weapons g w)"
  shows "ammo_ok g' = ammo_ok g"
  using assms by (simp add: ammo_ok_def)

lemma tick_weapon_alt:
  "tick_weapon dt w g =
     (if reloading (weapons g w) > 0 \<and> reloading (weapons g w) - dt \<le> 0
      then finish_reload (tick_timers dt w g) else tick_timers dt w g)"
proof -
  have same: "g\<lparr>weapons := (weapons g)(w := weapons g w)\<rparr> = g"
    by simp
  show ?thesis
    by (cases "cooldown (weapons g w) > 0"; cases "reloading (weapons g w) > 0")
       (simp_all add: tick_weapon_def tick_timers_def Let_def same)
qed

lemma tick_timers_ammo_ok: "ammo_ok (tick_timers dt w g) = ammo_ok g"
  by (rule ammo_ok_same_rounds) (simp_all add: tick_timers_def)

lemma tick_weapon_ammo_ok:
  assumes "ammo_ok g"
  shows "ammo_ok (tick_weapon dt w g)"
  using assms finish_reload_ammo_ok [of "tick_timers dt w g"]
  by (simp add: tick_weapon_alt tick_timers_ammo_ok)

lemma tick_weapons_ammo_ok: "ammo_ok g \<Longrightarrow> ammo_ok (tick_weapons dt g)"
  by (simp add: tick_weapons_def tick_weapon_ammo_ok)

lemma auto_reload_ammo_ok: "ammo_ok g \<Longrightarrow> ammo_ok (auto_reload g)"
  by (simp add: auto_reload_def Let_def reload_ammo_ok)

lemma ammo_ok_weapons: "weapons g' = weapons g \<Longrightarrow> ammo_ok g' = ammo_ok g"
  by (simp add: ammo_ok_def)

lemma update_ammo_ok:
  assumes "ammo_ok g"
  shows "ammo_ok (fst (update dt (g, r)))"
proof (cases "state g \<noteq> PLAYING")
  case True
  then show ?thesis using assms by (simp add: update_def)
next
  case False
  then have "weapons (fst (update dt (g, r))) = weapons (auto_reload (tick_weapons dt g))"
    by (simp add: update_weapons)
  from ammo_ok_weapons [OF this] show ?thesis
    using auto_reload_ammo_ok [OF tick_weapons_ammo_ok [OF assms, of dt]] by simp
qed

lemma shoot_ammo_ok:
  assumes "ammo_ok g"
  shows "ammo_ok (fst (shoot (g, r)))"
proof (cases "fire_rejected g")
  case True
  then show ?thesis using assms by (simp add: shoot_rejected)
next
  case False
  then have pos: "0 < ammo (weapons g (current_weapon g))"
    by (simp add: fire_rejected_def)
  have "0 \<le> ammo (weapons (fst (shoot (g, r))) w) \<and>
        ammo (weapons (fst (shoot (g, r))) w) \<le> max_ammo (WEAPONS w) \<and>
        0 \<le> reserve (weapons (fst (shoot (g, r))) w)" for w
    using assms [unfolded ammo_ok_def, rule_format, of w] pos False
      assms [unfolded ammo_ok_def, rule_format, of "current_weapon g"]
    by (auto simp add: shoot_weapons)
  then show ?thesis by (simp add: ammo_ok_def)
qed

lemma start_weapon_ok:
  "0 \<le> ammo (start_weapon w) \<and> ammo (start_weapon w) \<le> max_ammo (WEAPONS w) \<and>
   0 \<le> reserve (start_weapon w)"
  by (cases w) (simp_all add: WeaponConfig_def)

lemma start_game_ammo_ok: "ammo_ok (fst (start_game m (g, r)))"
  by (simp add: ammo_ok_def start_game_weapons start_weapon_ok)

lemma step_ammo_ok: "ammo_ok (fst gr) \<Longrightarrow> ammo_ok (fst (step ev gr))"
proof (cases ev)
  case (Tick dt)
  assume "ammo_ok (fst gr)"
  then show ?thesis using update_ammo_ok [of "fst gr" dt "snd gr"] by (simp add: Tick)
next
  case Fire
  assume "ammo_ok (fst gr)"
  then show ?thesis using shoot_ammo_ok [of "fst gr" "snd gr"] by (simp add: Fire)
next
  case Reload
  assume "ammo_ok (fst gr)"
  then show ?thesis by (simp add: Reload reload_ammo_ok)
next
  case (Switch w)
  assume "ammo_ok (fst gr)"
  then show ?thesis by (simp add: Switch ammo_ok_def)
next
  case (Start m)
  show ?thesis using start_game_ammo_ok [of m "fst gr" "snd gr"] by (simp add: Start)
next
  case (SetState s)
  assume "ammo_ok (fst gr)"
  then show ?thesis by (simp add: SetState ammo_ok_def)
qed

lemma run_ammo_ok: "ammo_ok (fst gr) \<Longrightarrow> ammo_ok (fst (run evs gr))"
proof (induction evs arbitrary: gr)
  case Nil
  then show ?case by simp
next
  case (Cons ev evs)
  from Cons.IH [OF step_ammo_ok [OF Cons.prems, of ev]] show ?case by simp
qed

lemma Game_ammo_ok: "ammo_ok Game"
  by (simp add: ammo_ok_def Game_def start_weapon_ok)

subsection \<open>Ammo and reserve\<close>

text \<open>
  Claim C3.  After every sequence of ticks (of any length dt), fire, reload,
  switch-weapon and start-session calls and state changes on a fresh \<open>Game\<close>, each
  weapon's magazine ammo is within 0 and the \<open>max_ammo\<close> of its kind and its
  reserve is not negative.
\<close>

theorem ammo_within_capacity:
  "\<forall>w. 0 \<le> ammo (weapons (fst (run evs (Game, r))) w) \<and>
       ammo (weapons (fst (run evs (Game, r))) w) \<le> max_ammo (WEAPONS w) \<and>
       0 \<le> reserve (weapons (fst (run evs (Game, r))) w)"
  using run_ammo_ok [of "(Game, r)" evs] Game_ammo_ok by (simp add: ammo_ok_def)

theorem ammo_within_capacity_witness:
  "0 \<le> ammo (weapons (fst (run [Start target, Fire, Reload, Tick 2] (Game, centre_rng))) Pistol) \<and>
   ammo (weapons (fst (run [Start target, Fire, Reload, Tick 2] (Game, centre_rng))) Pistol)
     \<le> max_ammo (WEAPONS Pistol) \<and>
   0 \<le> reserve (weapons (fst (run [Start target, Fire, Reload, Tick 2] (Game, centre_rng))) Pistol)"
  using ammo_within_capacity [of "[Start target, Fire, Reload, Tick 2]" centre_rng] by blast

subsection \<open>A rejected fire intent\<close>

text \<open>
  Claim C4.  \<open>shoot\<close> called while the selected weapon has cooldown above 0, or
  reloading above 0, or no ammo returns the whole game state (and the random source)
  as it was: ammo, reserve, cooldown, reloading, score, kills, enemies, particles,
  kill feed and screen shake are unchanged.
\<close>

theorem fire_rejected_is_noop:
  assumes "cooldown (weapons g (current_weapon g)) > 0 \<or>
           reloading (weapons g (current_weapon g)) > 0 \<or>
           ammo (weapons g (current_weapon g)) \<le> 0"
  shows "shoot (g, r) = (g, r)"
  using assms by (auto simp add: shoot_def Let_def)

theorem fire_rejected_is_noop_witness:
  "cooldown (weapons (Game\<lparr>weapons := start_weapon
               (Pistol := \<lparr>ammo = 11, reserve = 36, cooldown = 0.3, reloading = 0\<rparr>)\<rparr>)
             (current_weapon (Game\<lparr>weapons := start_weapon
               (Pistol := \<lparr>ammo = 11, reserve = 36, cooldown = 0.3, reloading = 0\<rparr>)\<rparr>))) > 0 \<and>
   shoot (Game\<lparr>weapons := start_weapon
               (Pistol := \<lparr>ammo = 11, reserve = 36, cooldown = 0.3, reloading = 0\<rparr>)\<rparr>, centre_rng)
     = (Game\<lparr>weapons := start_weapon
               (Pistol := \<lparr>ammo = 11, reserve = 36, cooldown = 0.3, reloading = 0\<rparr>)\<rparr>, centre_rng)"
proof -
  have c: "cooldown (weapons (Game\<lparr>weapons := start_weapon
               (Pistol := \<lparr>ammo = 11, reserve = 36, cooldown = 0.3, reloading = 0\<rparr>)\<rparr>)
             (current_weapon (Game\<lparr>weapons := start_weapon
               (Pistol := \<lparr>ammo = 11, reserve = 36, cooldown = 0.3, reloading = 0\<rparr>)\<rparr>))) > 0"
    by (simp add: Game_def)
  then show ?thesis
    using fire_rejected_is_noop [of "Game\<lparr>weapons := start_weapon
               (Pistol := \<lparr>ammo = 11, reserve = 36, cooldown = 0.3, reloading = 0\<rparr>)\<rparr>" centre_rng]
    by blast
qed

lemma advance_const: "advance (\<lambda>_. c) = (\<lambda>_. c)"
  by (simp add: advance_def)

lemma uniform_const: "snd (uniform a b (\<lambda>_. c)) = (\<lambda>_. c)"
  by (simp add: uniform_def random_def advance_const)

lemma choice_const: "snd (choice xs (\<lambda>_. c)) = (\<lambda>_. c)"
  by (simp add: choice_def advance_const)

lemma explosion_loop_const: "snd (explosion_loop n pos (g, \<lambda>_. c)) = (\<lambda>_. c)"
proof (induction n arbitrary: g)
  case 0
  show ?case by simp
next
  case (Suc n)
  show ?case
    by (simp add: Let_def split_def uniform_const choice_const Suc.IH)
qed

lemma fire_pellet_const: "snd (fire_pellet config (g, \<lambda>_. c)) = (\<lambda>_. c)"
  by (simp add: fire_pellet_def Let_def split_def uniform_const create_explosion_def
      explosion_loop_const split: option.split)

lemma fire_pellet_core:
  "combat_core (fst (fire_pellet config (g, r))) = pellet_core config r (combat_core g)"
proof (cases "pellet_target config g r")
  case None
  then show ?thesis
    by (simp add: fire_pellet_miss combat_core_def pellet_core_def pellet_target_def)
next
  case (Some i)
  from fire_pellet_hit [OF Some] Some show ?thesis
    by (simp add: combat_core_def pellet_core_def pellet_target_def combat_frame_def)
qed

lemma pellet_loop_core:
  "combat_core (fst (pellet_loop n config (g, \<lambda>_. c)))
     = (pellet_core config (\<lambda>_. c) ^^ n) (combat_core g)"
proof (induction n arbitrary: g)
  case 0
  show ?case by simp
next
  case (Suc n)
  obtain g1 where g1: "fire_pellet config (g, \<lambda>_. c) = (g1, \<lambda>_. c)"
    using fire_pellet_const [of config g c] by (cases "fire_pellet config (g, \<lambda>_. c)") simp
  have "combat_core g1 = pellet_core config (\<lambda>_. c) (combat_core g)"
    using fire_pellet_core [of config g "\<lambda>_. c"] by (simp add: g1)
  then show ?case
    by (simp add: g1 Suc.IH funpow_swap1)
qed

lemma centre_draw: "fst (uniform (- s) s centre_rng) = 0"
  by (simp add: uniform_def random_def centre_rng_def)

lemma centre_rng_const: "snd (uniform a b centre_rng) = centre_rng"
  by (simp add: centre_rng_def uniform_const)

lemma aim_forward: "get_forward aim_camera = Vector3 0 0 (- 1)"
  by (simp add: get_forward_def aim_camera_def radians_def normalize_v_def length_v_def)

lemma pellet_core_centre:
  "pellet_core config centre_rng (aim_camera, es, k) =
     (case raycast es (Vector3 0 2 0) (Vector3 0 0 (- 1)) of
        None \<Rightarrow> (aim_camera, es, k)
      | Some i \<Rightarrow> (aim_camera, es[i := fst (hit (es ! i) (damage config))],
                   if snd (hit (es ! i) (damage config)) then k + 1 else k))"
proof -
  have "normalize_v (Vector3 0 0 (- 1)) = Vector3 0 0 (- 1)"
    by (simp add: normalize_v_def length_v_def)
  then show ?thesis
    by (simp add: pellet_core_def centre_draw centre_rng_const aim_forward)
       (simp add: aim_camera_def)
qed

lemma weak_tank_reach:
  "in_reach (Vector3 0 2 0) (Vector3 0 0 (- 1)) ((weak_tank d)\<lparr>enemy.health := h, enemy.alive := a\<rparr>)
     = (a \<and> 0 \<le> d)"
  "in_reach (Vector3 0 2 0) (Vector3 0 0 (- 1)) (weak_tank d) = (0 \<le> d)"
  "proj_of (Vector3 0 2 0) (Vector3 0 0 (- 1)) ((weak_tank d)\<lparr>enemy.health := h, enemy.alive := a\<rparr>) = d"
  "proj_of (Vector3 0 2 0) (Vector3 0 0 (- 1)) (weak_tank d) = d"
  by (simp_all add: in_reach_def proj_of_def weak_tank_def dot_def vsub_def vadd_def vmul_def
      length_v_def)

lemma weak_tank_hit:
  "hit (weak_tank d) 20 = ((weak_tank d)\<lparr>enemy.health := - 10, enemy.alive := False\<rparr>, True)"
  by (simp add: hit_def weak_tank_def Let_def)

lemma six_tanks_core:
  "(pellet_core (WEAPONS Shotgun) centre_rng ^^ 6)
     (aim_camera, [weak_tank 10, weak_tank 12, weak_tank 14, weak_tank 16, weak_tank 18,
                      weak_tank 20], k)
   = (aim_camera,
      map (\<lambda>d. (weak_tank d)\<lparr>enemy.health := - 10, enemy.alive := False\<rparr>) [10, 12, 14, 16, 18, 20],
      k + 6)"
  by (simp add: eval_nat_numeral pellet_core_centre raycast_def raycast_from_step
      weak_tank_reach below_def weak_tank_hit WeaponConfig_def)

lemma shoot_core:
  assumes "\<not> fire_rejected g"
  shows "combat_core (fst (shoot (g, \<lambda>_. c)))
           = (pellet_core (WEAPONS (current_weapon g)) (\<lambda>_. c)
                ^^ nat (pellets (WEAPONS (current_weapon g)))) (combat_core g)"
proof -
  let ?g2 = "g\<lparr>weapons := (weapons g)
                 (current_weapon g :=
                    (weapons g (current_weapon g))
                      \<lparr>ammo := ammo (weapons g (current_weapon g)) - 1,
                       cooldown := fire_rate (WEAPONS (current_weapon g))\<rparr>),
               shake_amount := 0.15, shake_timer := 0.2\<rparr>"
  have "shoot (g, \<lambda>_. c) =
     pellet_loop (nat (pellets (WEAPONS (current_weapon g)))) (WEAPONS (current_weapon g))
       (?g2, \<lambda>_. c)"
    using assms by (auto simp add: shoot_def fire_rejected_def Let_def screen_shake_def)
  moreover have "combat_core ?g2 = combat_core g"
    by (simp add: combat_core_def)
  ultimately show ?thesis
    using pellet_loop_core [of "nat (pellets (WEAPONS (current_weapon g)))"
        "WEAPONS (current_weapon g)" ?g2 c]
    by simp
qed

lemma six_tanks_accepted: "\<not> fire_rejected six_tanks"
  by (simp add: fire_rejected_def six_tanks_def Game_def)

lemma one_tank_accepted: "\<not> fire_rejected one_tank"
  by (simp add: fire_rejected_def one_tank_def Game_def)

lemma six_tanks_shot:
  "combat_core (fst (shoot (six_tanks, centre_rng)))
     = (aim_camera,
        map (\<lambda>d. (weak_tank d)\<lparr>enemy.health := - 10, enemy.alive := False\<rparr>)
          [10, 12, 14, 16, 18, 20], 6)"
proof -
  have c: "combat_core six_tanks
             = (aim_camera, [weak_tank 10, weak_tank 12, weak_tank 14, weak_tank 16,
                             weak_tank 18, weak_tank 20], 0)"
    by (simp add: combat_core_def six_tanks_def Game_def aim_camera_def)
  have w: "current_weapon six_tanks = Shotgun" by (simp add: six_tanks_def)
  have p: "nat (pellets (WEAPONS Shotgun)) = 6" by (simp add: WeaponConfig_def)
  show ?thesis
    using shoot_core [OF six_tanks_accepted, of "2 ^ 52"] six_tanks_core [of 0]
    by (simp only: c w p centre_rng_def [symmetric] add_0)
qed

lemma one_tank_core:
  "(pellet_core (WEAPONS Shotgun) centre_rng ^^ 6)
     (aim_camera, [Enemy (Vector3 0 1 (- 10)) tank], k)
   = (aim_camera, [(Enemy (Vector3 0 1 (- 10)) tank)\<lparr>enemy.health := 30\<rparr>], k)"
  by (simp add: eval_nat_numeral pellet_core_centre raycast_def raycast_from_step
      in_reach_def proj_of_def dot_def vsub_def vadd_def vmul_def length_v_def
      below_def hit_def Let_def WeaponConfig_def)

lemma one_tank_shot:
  "combat_core (fst (shoot (one_tank, centre_rng)))
     = (aim_camera, [(Enemy (Vector3 0 1 (- 10)) tank)\<lparr>enemy.health := 30\<rparr>], 0)"
proof -
  have c: "combat_core one_tank = (aim_camera, [Enemy (Vector3 0 1 (- 10)) tank], 0)"
    by (simp add: combat_core_def one_tank_def Game_def aim_camera_def)
  have w: "current_weapon one_tank = Shotgun" by (simp add: one_tank_def)
  have p: "nat (pellets (WEAPONS Shotgun)) = 6" by (simp add: WeaponConfig_def)
  show ?thesis
    using shoot_core [OF one_tank_accepted, of "2 ^ 52"] one_tank_core [of 0]
    by (simp only: c w p centre_rng_def [symmetric])
qed

subsection \<open>The nearest candidate\<close>

text \<open>
  Claim C6.  For a direction of length 1: when \<open>raycast\<close> returns an enemy, it is a
  candidate (alive, projection at least 0, distance from the line of the ray below
  its size-radius) and no candidate has a smaller projection; when there is a
  candidate, \<open>raycast\<close> returns one.  An enemy that is not alive is never returned,
  and \<open>shoot\<close> leaves every enemy that was not alive exactly as it was.
\<close>

theorem raycast_nearest_candidate:
  assumes "length_v direction = 1"
  shows "(\<forall>k. raycast es origin direction = Some k \<longrightarrow>
            k < length es \<and> candidate origin direction (es ! k) \<and>
            (\<forall>j<length es. candidate origin direction (es ! j) \<longrightarrow>
               proj_of origin direction (es ! k) \<le> proj_of origin direction (es ! j))) \<and>
         ((\<exists>j<length es. candidate origin direction (es ! j))
            \<longrightarrow> raycast es origin direction \<noteq> None) \<and>
         (\<forall>j<length es. \<not> enemy.alive (es ! j) \<longrightarrow> raycast es origin direction \<noteq> Some j) \<and>
         (\<forall>j<length (enemies g). \<not> enemy.alive (enemies g ! j)
            \<longrightarrow> enemies (fst (shoot (g, r))) ! j = enemies g ! j)"
proof (intro conjI)
  show "\<forall>k. raycast es origin direction = Some k \<longrightarrow>
            k < length es \<and> candidate origin direction (es ! k) \<and>
            (\<forall>j<length es. candidate origin direction (es ! j) \<longrightarrow>
               proj_of origin direction (es ! k) \<le> proj_of origin direction (es ! j))"
    using raycast_Some [of es origin direction] in_reach_candidate [OF assms, of origin]
    by simp
  show "(\<exists>j<length es. candidate origin direction (es ! j))
            \<longrightarrow> raycast es origin direction \<noteq> None"
    using raycast_None [of es origin direction] in_reach_candidate [OF assms, of origin]
    by auto
  show "\<forall>j<length es. \<not> enemy.alive (es ! j) \<longrightarrow> raycast es origin direction \<noteq> Some j"
    using raycast_alive [of es origin direction] by auto
  show "\<forall>j<length (enemies g). \<not> enemy.alive (enemies g ! j)
            \<longrightarrow> enemies (fst (shoot (g, r))) ! j = enemies g ! j"
  proof (cases "fire_rejected g")
    case True
    then show ?thesis by (simp add: shoot_rejected)
  next
    case False
    from shoot_accepted [OF False, of r] show ?thesis
      by (simp add: shot_effect_def)
  qed
qed

theorem raycast_nearest_candidate_witness:
  "length_v (Vector3 0 0 (- 1)) = 1 \<and>
   raycast [(weak_tank 10)\<lparr>enemy.alive := False\<rparr>, weak_tank 14, weak_tank 12]
      (Vector3 0 2 0) (Vector3 0 0 (- 1)) = Some 2 \<and>
   candidate (Vector3 0 2 0) (Vector3 0 0 (- 1))
      ([(weak_tank 10)\<lparr>enemy.alive := False\<rparr>, weak_tank 14, weak_tank 12] ! 2) \<and>
   \<not> enemy.alive ([(weak_tank 10)\<lparr>enemy.alive := False\<rparr>, weak_tank 14, weak_tank 12] ! 0) \<and>
   enemies (fst (shoot
      (six_tanks\<lparr>enemies := [(weak_tank 10)\<lparr>enemy.alive := False\<rparr>, weak_tank 14, weak_tank 12]\<rparr>,
       centre_rng))) ! 0 = (weak_tank 10)\<lparr>enemy.alive := False\<rparr>"
proof -
  let ?es = "[(weak_tank 10)\<lparr>enemy.alive := False\<rparr>, weak_tank 14, weak_tank 12]"
  have u: "length_v (Vector3 0 0 (- 1)) = 1" by (simp add: length_v_def)
  have r: "raycast ?es (Vector3 0 2 0) (Vector3 0 0 (- 1)) = Some 2"
    by (simp add: raycast_def raycast_from_step in_reach_def proj_of_def weak_tank_def
        dot_def vsub_def vadd_def vmul_def length_v_def below_def)
  have d: "\<not> enemy.alive (?es ! 0)" by simp
  from raycast_nearest_candidate [OF u, of ?es "Vector3 0 2 0" "six_tanks\<lparr>enemies := ?es\<rparr>"
      centre_rng] r d u
  show ?thesis by simp
qed

subsection \<open>One shotgun shell\<close>

text \<open>
  Claim C8.  An accepted \<open>shoot\<close> with the shotgun selected takes exactly 1 round
  from the shotgun's magazine, whatever its 6 pellets hit; it adds at most 6 kills
  and takes at most 6 times the damage of 20 from any enemy.  Both bounds are
  reached: on six tanks of health 10 standing in a line the one call kills all six,
  and on one fresh tank it takes 120 health.
\<close>

theorem shotgun_shell:
  "(current_weapon g = Shotgun \<and> cooldown (weapons g Shotgun) \<le> 0 \<and>
    reloading (weapons g Shotgun) \<le> 0 \<and> 0 < ammo (weapons g Shotgun) \<longrightarrow>
      ammo (weapons (fst (shoot (g, r))) Shotgun) = ammo (weapons g Shotgun) - 1 \<and>
      kills g \<le> kills (fst (shoot (g, r))) \<and> kills (fst (shoot (g, r))) \<le> kills g + 6 \<and>
      length (enemies (fst (shoot (g, r)))) = length (enemies g) \<and>
      (\<forall>j<length (enemies g).
         enemy.health (enemies g ! j) - 6 * 20 \<le> enemy.health (enemies (fst (shoot (g, r))) ! j))) \<and>
   (length (enemies six_tanks) = 6 \<and> list_all enemy.alive (enemies six_tanks) \<and>
    list_all (\<lambda>e. \<not> enemy.alive e) (enemies (fst (shoot (six_tanks, centre_rng)))) \<and>
    kills (fst (shoot (six_tanks, centre_rng))) = kills six_tanks + 6 \<and>
    ammo (weapons (fst (shoot (six_tanks, centre_rng))) Shotgun)
      = ammo (weapons six_tanks Shotgun) - 1) \<and>
   (enemy.health (enemies (fst (shoot (one_tank, centre_rng))) ! 0)
      = enemy.health (enemies one_tank ! 0) - 6 * 20 \<and>
    ammo (weapons (fst (shoot (one_tank, centre_rng))) Shotgun)
      = ammo (weapons one_tank Shotgun) - 1)"
proof (intro conjI impI)
  assume a: "current_weapon g = Shotgun \<and> cooldown (weapons g Shotgun) \<le> 0 \<and>
    reloading (weapons g Shotgun) \<le> 0 \<and> 0 < ammo (weapons g Shotgun)"
  then have acc: "\<not> fire_rejected g" by (simp add: fire_rejected_def)
  have cfg: "damage (WEAPONS (current_weapon g)) = 20"
    "nat (pellets (WEAPONS (current_weapon g))) = 6"
    using a by (simp_all add: WeaponConfig_def)
  note E = shoot_accepted [OF acc, of r, unfolded cfg]
  show "ammo (weapons (fst (shoot (g, r))) Shotgun) = ammo (weapons g Shotgun) - 1"
    using a acc by (simp add: shoot_weapons)
  show "kills g \<le> kills (fst (shoot (g, r)))" using E by (simp add: shot_effect_def)
  show "kills (fst (shoot (g, r))) \<le> kills g + 6" using E by (simp add: shot_effect_def)
  show "length (enemies (fst (shoot (g, r)))) = length (enemies g)"
    using E by (simp add: shot_effect_def)
  show "\<forall>j<length (enemies g).
         enemy.health (enemies g ! j) - 6 * 20 \<le> enemy.health (enemies (fst (shoot (g, r))) ! j)"
    using E by (simp add: shot_effect_def)
next
  show "length (enemies six_tanks) = 6" by (simp add: six_tanks_def)
  show "list_all enemy.alive (enemies six_tanks)" by (simp add: six_tanks_def weak_tank_def)
  show "list_all (\<lambda>e. \<not> enemy.alive e) (enemies (fst (shoot (six_tanks, centre_rng))))"
    using six_tanks_shot by (simp add: combat_core_def)
  show "kills (fst (shoot (six_tanks, centre_rng))) = kills six_tanks + 6"
    using six_tanks_shot by (simp add: combat_core_def six_tanks_def Game_def)
  show "ammo (weapons (fst (shoot (six_tanks, centre_rng))) Shotgun)
      = ammo (weapons six_tanks Shotgun) - 1"
    using six_tanks_accepted by (simp add: shoot_weapons six_tanks_def)
  show "enemy.health (enemies (fst (shoot (one_tank, centre_rng))) ! 0)
      = enemy.health (enemies one_tank ! 0) - 6 * 20"
    using one_tank_shot by (simp add: combat_core_def one_tank_def)
  show "ammo (weapons (fst (shoot (one_tank, centre_rng))) Shotgun)
      = ammo (weapons one_tank Shotgun) - 1"
    using one_tank_accepted by (simp add: shoot_weapons one_tank_def)
qed

theorem shotgun_shell_witness:
  "current_weapon six_tanks = Shotgun \<and> cooldown (weapons six_tanks Shotgun) \<le> 0 \<and>
   reloading (weapons six_tanks Shotgun) \<le> 0 \<and> 0 < ammo (weapons six_tanks Shotgun) \<and>
   ammo (weapons (fst (shoot (six_tanks, centre_rng))) Shotgun) = 7 \<and>
   kills (fst (shoot (six_tanks, centre_rng))) \<le> kills six_tanks + 6 \<and>
   length (enemies (fst (shoot (six_tanks, centre_rng)))) = 6"
proof -
  have h: "current_weapon six_tanks = Shotgun \<and> cooldown (weapons six_tanks Shotgun) \<le> 0 \<and>
   reloading (weapons six_tanks Shotgun) \<le> 0 \<and> 0 < ammo (weapons six_tanks Shotgun)"
    by (simp add: six_tanks_def Game_def)
  have "ammo (weapons six_tanks Shotgun) = 8" "length (enemies six_tanks) = 6"
    by (simp_all add: six_tanks_def Game_def)
  with h shotgun_shell [of six_tanks centre_rng] show ?thesis by simp
qed

lemma camera_reset:
  "(c :: camera)\<lparr>camera.position := p, yaw := a, pitch := b\<rparr>
     = \<lparr>camera.position = p, yaw = a, pitch = b\<rparr>"
  by (cases c) simp

lemma start_game_target:
  "fst (start_game target (g, r)) =
     g\<lparr>game_mode := Some target, state := PLAYING, game.score := 0, kills := 0, wave := 0,
       player_health := 100, particles := [], kill_feed := [],
       weapons := start_weapon, current_weapon := Pistol,
       camera := \<lparr>camera.position = Vector3 0 2 0, yaw = 0, pitch = 0\<rparr>,
       enemies := map (\<lambda>pos. Enemy pos normal) target_positions\<rparr>"
proof -
  have sw: "(weapons g)(Pistol := \<lparr>ammo = 12, reserve = 36, cooldown = 0, reloading = 0\<rparr>,
                      Rifle := \<lparr>ammo = 30, reserve = 90, cooldown = 0, reloading = 0\<rparr>,
                      Shotgun := \<lparr>ammo = 8, reserve = 24, cooldown = 0, reloading = 0\<rparr>)
            = start_weapon"
  proof
    fix w show "((weapons g)(Pistol := \<lparr>ammo = 12, reserve = 36, cooldown = 0, reloading = 0\<rparr>,
                      Rifle := \<lparr>ammo = 30, reserve = 90, cooldown = 0, reloading = 0\<rparr>,
                      Shotgun := \<lparr>ammo = 8, reserve = 24, cooldown = 0, reloading = 0\<rparr>)) w
            = start_weapon w"
      by (cases w) simp_all
  qed
  show ?thesis
    by (simp add: start_game_def Let_def spawn_targets_def sw camera_reset)
qed

lemma start_game_survival:
  "\<exists>es. fst (start_game survival (g, r)) =
     g\<lparr>game_mode := Some survival, state := PLAYING, game.score := 0, kills := 0, wave := 1,
       player_health := 100, particles := [],
       kill_feed := [\<lparr>message = ''Wave 1 Starting!'', time = 3.0\<rparr>],
       weapons := start_weapon, current_weapon := Pistol,
       camera := \<lparr>camera.position = Vector3 0 2 0, yaw = 0, pitch = 0\<rparr>,
       enemies := es, enemies_per_wave := enemies_per_wave g + 2\<rparr> \<and>
     length es = nat (enemies_per_wave g) \<and> (\<forall>e\<in>set es. enemy.alive e)"
proof -
  have sw: "(weapons g)(Pistol := \<lparr>ammo = 12, reserve = 36, cooldown = 0, reloading = 0\<rparr>,
                      Rifle := \<lparr>ammo = 30, reserve = 90, cooldown = 0, reloading = 0\<rparr>,
                      Shotgun := \<lparr>ammo = 8, reserve = 24, cooldown = 0, reloading = 0\<rparr>)
            = start_weapon"
  proof
    fix w show "((weapons g)(Pistol := \<lparr>ammo = 12, reserve = 36, cooldown = 0, reloading = 0\<rparr>,
                      Rifle := \<lparr>ammo = 30, reserve = 90, cooldown = 0, reloading = 0\<rparr>,
                      Shotgun := \<lparr>ammo = 8, reserve = 24, cooldown = 0, reloading = 0\<rparr>)) w
            = start_weapon w"
      by (cases w) simp_all
  qed
  let ?g = "g\<lparr>game_mode := Some survival, state := PLAYING, game.score := 0, kills := 0,
              player_health := 100, enemies := [], particles := [], kill_feed := [],
              weapons := start_weapon, current_weapon := Pistol,
              camera := \<lparr>camera.position = Vector3 0 2 0, yaw = 0, pitch = 0\<rparr>,
              wave := 1\<rparr>"
  have s: "start_game survival (g, r) = spawn_wave (?g, r)"
    by (simp add: start_game_def Let_def sw camera_reset)
  have one: "str_int 1 = ''1''"
    by (simp add: str_int_def str_nat.simps)
  from spawn_wave_effect [of ?g r] obtain es where es:
    "fst (spawn_wave (?g, r))
          = ?g\<lparr>kill_feed := kill_feed ?g
                   @ [\<lparr>message = ''Wave '' @ str_int (wave ?g) @ '' Starting!'', time = 3.0\<rparr>],
               enemies := enemies ?g @ es,
               enemies_per_wave := enemies_per_wave ?g + 2\<rparr>"
    "length es = nat (enemies_per_wave ?g)" "\<forall>e\<in>set es. enemy.alive e"
    by blast
  have "fst (start_game survival (g, r)) =
     g\<lparr>game_mode := Some survival, state := PLAYING, game.score := 0, kills := 0, wave := 1,
       player_health := 100, particles := [],
       kill_feed := [\<lparr>message = ''Wave 1 Starting!'', time = 3.0\<rparr>],
       weapons := start_weapon, current_weapon := Pistol,
       camera := \<lparr>camera.position = Vector3 0 2 0, yaw = 0, pitch = 0\<rparr>,
       enemies := es, enemies_per_wave := enemies_per_wave g + 2\<rparr>"
    unfolding s es(1) by (simp add: one)
  moreover have "length es = nat (enemies_per_wave g)" using es(2) by simp
  ultimately show ?thesis using es(3) by blast
qed

lemma start_game_epw:
  "enemies_per_wave (fst (start_game m (g, r)))
     = enemies_per_wave g + 2 * int (waves_spawned_by (Start m) (g, r))"
proof (cases m)
  case target
  then show ?thesis by (simp add: start_game_target)
next
  case survival
  from start_game_survival [of g r] obtain es where
    "fst (start_game survival (g, r)) =
     g\<lparr>game_mode := Some survival, state := PLAYING, game.score := 0, kills := 0, wave := 1,
       player_health := 100, particles := [],
       kill_feed := [\<lparr>message = ''Wave 1 Starting!'', time = 3.0\<rparr>],
       weapons := start_weapon, current_weapon := Pistol,
       camera := \<lparr>camera.position = Vector3 0 2 0, yaw = 0, pitch = 0\<rparr>,
       enemies := es, enemies_per_wave := enemies_per_wave g + 2\<rparr>"
    by blast
  then show ?thesis using survival by simp
qed

lemma replenish_epw:
  "enemies_per_wave (fst (replenish (g, r)))
     = (if wave_due g then enemies_per_wave g + 2 else enemies_per_wave g)"
proof -
  from spawn_wave_effect [of "g\<lparr>wave := wave g + 1\<rparr>" r] obtain es where
    "fst (spawn_wave (g\<lparr>wave := wave g + 1\<rparr>, r))
       = g\<lparr>wave := wave g + 1,
            kill_feed := kill_feed g
               @ [\<lparr>message = ''Wave '' @ str_int (wave g + 1) @ '' Starting!'', time = 3.0\<rparr>],
            enemies := enemies g @ es,
            enemies_per_wave := enemies_per_wave g + 2\<rparr>"
    by auto
  then show ?thesis by (simp add: replenish_def spawn_targets_def)
qed

lemma weapon_ops_epw:
  "enemies_per_wave (reload g) = enemies_per_wave g"
  "enemies_per_wave (finish_reload g) = enemies_per_wave g"
  "enemies_per_wave (tick_timers dt w g) = enemies_per_wave g"
  by (simp_all add: reload_def finish_reload_def tick_timers_def Let_def)

lemma tick_weapons_epw: "enemies_per_wave (auto_reload (tick_weapons dt g)) = enemies_per_wave g"
  by (simp add: auto_reload_def tick_weapons_def tick_weapon_alt weapon_ops_epw Let_def)

lemma update_epw:
  "enemies_per_wave (fst (update dt (g, r)))
     = enemies_per_wave g + 2 * int (waves_spawned_by (Tick dt) (g, r))"
proof (cases "state g \<noteq> PLAYING")
  case True
  then show ?thesis by (simp add: update_def)
next
  case False
  obtain g1 r1 where t: "tick_entities dt (g, r) = (g1, r1)" by (cases "tick_entities dt (g, r)")
  have "enemies_per_wave g1 = enemies_per_wave g"
    using tick_entities_frame [of dt g r] by (simp add: t tick_weapons_epw)
  then show ?thesis
    using False replenish_epw [of g1 r1] by (simp add: update_def t)
qed

lemma step_epw:
  "enemies_per_wave (fst (step ev gr))
     = enemies_per_wave (fst gr) + 2 * int (waves_spawned_by ev gr)"
proof (cases ev)
  case (Tick dt)
  then show ?thesis using update_epw [of dt "fst gr" "snd gr"] by simp
next
  case Fire
  then show ?thesis using shoot_frame [of "fst gr" "snd gr"] by simp
next
  case Reload
  then show ?thesis by (simp add: weapon_ops_epw)
next
  case (Switch w)
  then show ?thesis by simp
next
  case (Start m)
  then show ?thesis using start_game_epw [of m "fst gr" "snd gr"] by simp
next
  case (SetState s)
  then show ?thesis by simp
qed

lemma run_epw:
  "enemies_per_wave (fst (run evs gr))
     = enemies_per_wave (fst gr) + 2 * int (waves_spawned evs gr)"
proof (induction evs arbitrary: gr)
  case Nil
  show ?case by simp
next
  case (Cons ev evs)
  show ?case using Cons.IH [of "step ev gr"] step_epw [of ev gr] by simp
qed

lemma start_game_fields:
  "game.score (fst (start_game m (g, r))) = 0"
  "kills (fst (start_game m (g, r))) = 0"
  "player_health (fst (start_game m (g, r))) = 100"
  "current_weapon (fst (start_game m (g, r))) = Pistol"
  "state (fst (start_game m (g, r))) = PLAYING"
  "game_mode (fst (start_game m (g, r))) = Some m"
  "camera (fst (start_game m (g, r))) = \<lparr>camera.position = Vector3 0 2 0, yaw = 0, pitch = 0\<rparr>"
  "particles (fst (start_game m (g, r))) = []"
  "wave (fst (start_game m (g, r))) = (if m = target then 0 else 1)"
  "kill_feed (fst (start_game m (g, r)))
     = (if m = target then [] else [\<lparr>message = ''Wave 1 Starting!'', time = 3\<rparr>])"
  "length (enemies (fst (start_game m (g, r))))
     = (if m = target then 8 else nat (enemies_per_wave g))"
  "enemies_per_wave (fst (start_game m (g, r)))
     = (if m = target then enemies_per_wave g else enemies_per_wave g + 2)"
proof -
  have "game.score (fst (start_game m (g, r))) = 0 \<and>
        kills (fst (start_game m (g, r))) = 0 \<and>
        player_health (fst (start_game m (g, r))) = 100 \<and>
        current_weapon (fst (start_game m (g, r))) = Pistol \<and>
        state (fst (start_game m (g, r))) = PLAYING \<and>
        game_mode (fst (start_game m (g, r))) = Some m \<and>
        camera (fst (start_game m (g, r)))
          = \<lparr>camera.position = Vector3 0 2 0, yaw = 0, pitch = 0\<rparr> \<and>
        particles (fst (start_game m (g, r))) = [] \<and>
        wave (fst (start_game m (g, r))) = (if m = target then 0 else 1) \<and>
        kill_feed (fst (start_game m (g, r)))
          = (if m = target then [] else [\<lparr>message = ''Wave 1 Starting!'', time = 3\<rparr>]) \<and>
        length (enemies (fst (start_game m (g, r))))
          = (if m = target then 8 else nat (enemies_per_wave g)) \<and>
        enemies_per_wave (fst (start_game m (g, r)))
          = (if m = target then enemies_per_wave g else enemies_per_wave g + 2)"
  proof (cases m)
    case target
    then show ?thesis by (simp add: start_game_target target_positions_def)
  next
    case survival
    from start_game_survival [of g r] obtain es where
      "fst (start_game survival (g, r)) =
       g\<lparr>game_mode := Some survival, state := PLAYING, game.score := 0, kills := 0, wave := 1,
         player_health := 100, particles := [],
         kill_feed := [\<lparr>message = ''Wave 1 Starting!'', time = 3.0\<rparr>],
         weapons := start_weapon, current_weapon := Pistol,
         camera := \<lparr>camera.position = Vector3 0 2 0, yaw = 0, pitch = 0\<rparr>,
         enemies := es, enemies_per_wave := enemies_per_wave g + 2\<rparr>"
      "length es = nat (enemies_per_wave g)"
      by blast
    then show ?thesis using survival by simp
  qed
  then show
    "game.score (fst (start_game m (g, r))) = 0"
    "kills (fst (start_game m (g, r))) = 0"
    "player_health (fst (start_game m (g, r))) = 100"
    "current_weapon (fst (start_game m (g, r))) = Pistol"
    "state (fst (start_game m (g, r))) = PLAYING"
    "game_mode (fst (start_game m (g, r))) = Some m"
    "camera (fst (start_game m (g, r))) = \<lparr>camera.position = Vector3 0 2 0, yaw = 0, pitch = 0\<rparr>"
    "particles (fst (start_game m (g, r))) = []"
    "wave (fst (start_game m (g, r))) = (if m = target then 0 else 1)"
    "kill_feed (fst (start_game m (g, r)))
       = (if m = target then [] else [\<lparr>message = ''Wave 1 Starting!'', time = 3\<rparr>])"
    "length (enemies (fst (start_game m (g, r))))
       = (if m = target then 8 else nat (enemies_per_wave g))"
    "enemies_per_wave (fst (start_game m (g, r)))
       = (if m = target then enemies_per_wave g else enemies_per_wave g + 2)"
    by blast+
qed

subsection \<open>The enemies-per-wave counter\<close>

text \<open>
  Claim C9.  \<open>start_game\<close> sets score and kills to 0, player health to 100, the
  weapons to their starting values, the selected weapon to the pistol, the camera to
  its starting pose, empties the particles, and leaves in the enemy list, the kill
  feed and the wave number only what the initial spawn puts there; it never assigns
  \<open>enemies_per_wave\<close>, which only \<open>spawn_wave\<close> changes, by 2.  So after any sequence of
  calls on a fresh \<open>Game\<close> in which \<open>spawn_wave\<close> ran k times the counter is 5 + 2k,
  and the first wave of a survival session started then has 5 + 2k enemies.
\<close>

theorem start_game_keeps_enemies_per_wave:
  "game.score (fst (start_game m (g, r))) = 0 \<and>
   kills (fst (start_game m (g, r))) = 0 \<and>
   player_health (fst (start_game m (g, r))) = 100 \<and>
   weapons (fst (start_game m (g, r))) = start_weapon \<and>
   current_weapon (fst (start_game m (g, r))) = Pistol \<and>
   camera (fst (start_game m (g, r)))
     = \<lparr>camera.position = Vector3 0 2 0, yaw = 0, pitch = 0\<rparr> \<and>
   particles (fst (start_game m (g, r))) = [] \<and>
   wave (fst (start_game m (g, r))) = (if m = target then 0 else 1) \<and>
   kill_feed (fst (start_game m (g, r)))
     = (if m = target then [] else [\<lparr>message = ''Wave 1 Starting!'', time = 3\<rparr>]) \<and>
   length (enemies (fst (start_game m (g, r))))
     = (if m = target then 8 else nat (enemies_per_wave g)) \<and>
   enemies_per_wave (fst (start_game m (g, r)))
     = (if m = target then enemies_per_wave g else enemies_per_wave g + 2) \<and>
   enemies_per_wave (fst (run evs (Game, r'))) = 5 + 2 * int (waves_spawned evs (Game, r')) \<and>
   length (enemies (fst (start_game survival (run evs (Game, r')))))
     = 5 + 2 * waves_spawned evs (Game, r')"
proof -
  have e: "enemies_per_wave (fst (run evs (Game, r'))) = 5 + 2 * int (waves_spawned evs (Game, r'))"
    using run_epw [of evs "(Game, r')"] by (simp add: Game_def)
  have "length (enemies (fst (start_game survival (run evs (Game, r')))))
          = nat (enemies_per_wave (fst (run evs (Game, r'))))"
    using start_game_fields(11) [of survival "fst (run evs (Game, r'))" "snd (run evs (Game, r'))"]
    by simp
  with e have "length (enemies (fst (start_game survival (run evs (Game, r')))))
     = 5 + 2 * waves_spawned evs (Game, r')"
    by simp
  with e show ?thesis
    by (simp only: start_game_fields start_game_weapons simp_thms)
qed

theorem start_game_keeps_enemies_per_wave_witness:
  "waves_spawned [Start survival, SetState MENU] (Game, centre_rng) = 1 \<and>
   enemies_per_wave (fst (run [Start survival, SetState MENU] (Game, centre_rng))) = 7 \<and>
   length (enemies (fst (start_game survival
      (run [Start survival, SetState MENU] (Game, centre_rng))))) = 7"
proof -
  have w: "waves_spawned [Start survival, SetState MENU] (Game, centre_rng) = 1"
    by simp
  from start_game_keeps_enemies_per_wave
         [of target Game centre_rng "[Start survival, SetState MENU]" centre_rng]
  show ?thesis by (simp only: w) simp
qed

lemma timer_ops_cooldown:
  "cooldown (weapons (reload g) w) = cooldown (weapons g w)"
  "cooldown (weapons (finish_reload g) w) = cooldown (weapons g w)"
  "cooldown (weapons (tick_timers dt w' g) w)
     = (if w = w' \<and> cooldown (weapons g w) > 0 then cooldown (weapons g w) - dt
        else cooldown (weapons g w))"
  by (simp_all add: reload_def finish_reload_def tick_timers_def Let_def)

lemma tick_weapon_cooldown:
  "cooldown (weapons (tick_weapon dt w' g) w)
     = (if w = w' \<and> cooldown (weapons g w) > 0 then cooldown (weapons g w) - dt
        else cooldown (weapons g w))"
proof (cases "reloading (weapons g w') > 0 \<and> reloading (weapons g w') - dt \<le> 0")
  case True
  then have "tick_weapon dt w' g = finish_reload (tick_timers dt w' g)"
    by (simp add: tick_weapon_alt)
  then show ?thesis by (simp only: timer_ops_cooldown)
next
  case False
  then have "tick_weapon dt w' g = tick_timers dt w' g"
    by (auto simp add: tick_weapon_alt)
  then show ?thesis by (simp only: timer_ops_cooldown)
qed

lemma tick_weapons_cooldown:
  "cooldown (weapons (auto_reload (tick_weapons dt g)) w)
     = (if cooldown (weapons g w) > 0 then cooldown (weapons g w) - dt
        else cooldown (weapons g w))"
  by (cases w) (simp_all add: auto_reload_def Let_def timer_ops_cooldown tick_weapons_def
      tick_weapon_cooldown)

lemma update_cooldown:
  "cooldown (weapons (fst (update dt (g, r))) w)
     = (if state g = PLAYING \<and> cooldown (weapons g w) > 0 then cooldown (weapons g w) - dt
        else cooldown (weapons g w))"
  by (simp add: update_weapons tick_weapons_cooldown)

lemma fire_rate_nonneg: "0 \<le> fire_rate (WEAPONS w)"
  by (cases w) (simp_all add: WeaponConfig_def)

lemma reload_time_nonneg: "0 \<le> reload_time (WEAPONS w)"
  by (cases w) (simp_all add: WeaponConfig_def)

lemma start_weapon_cooldown: "0 \<le> D \<Longrightarrow> - D \<le> cooldown (start_weapon w)"
  by (cases w) simp_all

lemma step_cooldown_from:
  assumes "0 \<le> D" "tick_within D ev" "cooldown_from D (fst gr)"
  shows "cooldown_from D (fst (step ev gr))"
proof (cases ev)
  case (Tick dt)
  have "- D \<le> cooldown (weapons (fst (update dt (fst gr, snd gr))) w)" for w
    using assms(2) assms(3) [unfolded cooldown_from_def, rule_format, of w] Tick
      update_cooldown [of dt "fst gr" "snd gr" w]
    by (simp split: if_splits)
  then show ?thesis by (simp add: Tick cooldown_from_def)
next
  case Fire
  have "- D \<le> cooldown (weapons (fst (shoot (fst gr, snd gr))) w)" for w
    using assms(1) assms(3) [unfolded cooldown_from_def, rule_format, of w]
      fire_rate_nonneg [of "current_weapon (fst gr)"]
      shoot_weapons [of "fst gr" "snd gr"]
    by (simp split: if_splits)
  then show ?thesis by (simp add: Fire cooldown_from_def)
next
  case Reload
  then show ?thesis using assms(3) by (simp add: cooldown_from_def timer_ops_cooldown)
next
  case (Switch w)
  then show ?thesis using assms(3) by (simp add: cooldown_from_def)
next
  case (Start m)
  show ?thesis
    using start_game_weapons [of m "fst gr" "snd gr"] assms(1)
    by (simp add: Start cooldown_from_def start_weapon_cooldown)
next
  case (SetState s)
  then show ?thesis using assms(3) by (simp add: cooldown_from_def)
qed

lemma run_cooldown_from:
  assumes "0 \<le> D" "\<forall>ev\<in>set evs. tick_within D ev" "cooldown_from D (fst gr)"
  shows "cooldown_from D (fst (run evs gr))"
  using assms(2,3)
proof (induction evs arbitrary: gr)
  case Nil
  then show ?case by simp
next
  case (Cons ev evs)
  have "cooldown_from D (fst (step ev gr))"
    using step_cooldown_from [OF assms(1), of ev gr] Cons.prems by simp
  with Cons.IH [of "step ev gr"] Cons.prems show ?case by simp
qed

lemma timer_ops_current:
  "current_weapon (reload g) = current_weapon g"
  "current_weapon (finish_reload g) = current_weapon g"
  "current_weapon (tick_timers dt w g) = current_weapon g"
  "current_weapon (tick_weapon dt w g) = current_weapon g"
  "current_weapon (auto_reload g) = current_weapon g"
  by (simp_all add: reload_def finish_reload_def tick_timers_def tick_weapon_alt
      auto_reload_def Let_def)

lemma tick_weapon_selected_reloading:
  assumes "0 \<le> reloading (weapons g (current_weapon g))"
  shows "0 \<le> reloading (weapons (tick_weapon dt w g) (current_weapon g))"
  using assms by (auto simp add: tick_weapon_alt finish_reload_def tick_timers_def Let_def)

lemma tick_weapons_selected_reloading:
  assumes "0 \<le> reloading (weapons g (current_weapon g))"
  shows "0 \<le> reloading (weapons (auto_reload (tick_weapons dt g)) (current_weapon g))"
proof -
  let ?g1 = "tick_weapon dt Pistol g"
  let ?g2 = "tick_weapon dt Rifle ?g1"
  let ?g3 = "tick_weapon dt Shotgun ?g2"
  have c: "current_weapon ?g1 = current_weapon g" "current_weapon ?g2 = current_weapon g"
    "current_weapon ?g3 = current_weapon g"
    by (simp_all add: timer_ops_current)
  have 1: "0 \<le> reloading (weapons ?g1 (current_weapon g))"
    using tick_weapon_selected_reloading [OF assms] .
  have 2: "0 \<le> reloading (weapons ?g2 (current_weapon g))"
    using tick_weapon_selected_reloading [of ?g1 dt Rifle] 1 by (simp add: c)
  have 3: "0 \<le> reloading (weapons ?g3 (current_weapon g))"
    using tick_weapon_selected_reloading [of ?g2 dt Shotgun] 2 by (simp add: c)
  show ?thesis
    using 3 c reload_time_nonneg [of "current_weapon g"]
    by (simp add: tick_weapons_def auto_reload_def reload_def Let_def)
qed

lemma after_first_shot:
  "state (fst (run [Start target, Fire] (Game, r))) = PLAYING"
  "current_weapon (fst (run [Start target, Fire] (Game, r))) = Pistol"
  "weapons (fst (run [Start target, Fire] (Game, r)))
     = start_weapon(Pistol := \<lparr>ammo = 11, reserve = 36, cooldown = 3 / 10, reloading = 0\<rparr>)"
proof -
  obtain g1 r1 where s1: "start_game target (Game, r) = (g1, r1)"
    by (cases "start_game target (Game, r)")
  have g1: "state g1 = PLAYING" "current_weapon g1 = Pistol" "weapons g1 = start_weapon"
    using start_game_fields(4,5) [of target Game r] start_game_weapons [of target Game r]
    by (simp_all add: s1)
  have acc: "\<not> fire_rejected g1" by (simp add: fire_rejected_def g1)
  have "weapons (fst (shoot (g1, r1)))
          = start_weapon(Pistol := \<lparr>ammo = 11, reserve = 36, cooldown = 3 / 10, reloading = 0\<rparr>)"
    using acc by (simp add: shoot_weapons g1 WeaponConfig_def)
  moreover have "state (fst (shoot (g1, r1))) = PLAYING" "current_weapon (fst (shoot (g1, r1))) = Pistol"
    using shoot_frame [of g1 r1] g1 by simp_all
  ultimately show
    "state (fst (run [Start target, Fire] (Game, r))) = PLAYING"
    "current_weapon (fst (run [Start target, Fire] (Game, r))) = Pistol"
    "weapons (fst (run [Start target, Fire] (Game, r)))
       = start_weapon(Pistol := \<lparr>ammo = 11, reserve = 36, cooldown = 3 / 10, reloading = 0\<rparr>)"
    by (simp_all add: s1)
qed

lemma run_snoc: "run (evs @ [ev]) gr = step ev (run evs gr)"
  by (induction evs arbitrary: gr) simp_all

subsection \<open>Timers\<close>

text \<open>
  Claim C2, as the code has it.  A tick subtracts dt from a cooldown that is above 0
  and does not floor the result, and leaves a cooldown that is not above 0 as it is;
  so over every sequence of calls on a fresh \<open>Game\<close> whose ticks have
  \<open>0 \<le> dt \<le> D\<close>, every weapon's cooldown stays at or above \<open>- D\<close>.  The
  reload-remaining of the weapon selected during a tick is not negative after the
  tick when it was not negative before.
\<close>

theorem cooldown_not_floored:
  "(0 \<le> D \<and> (\<forall>ev\<in>set evs. tick_within D ev)
      \<longrightarrow> (\<forall>w. - D \<le> cooldown (weapons (fst (run evs (Game, r))) w))) \<and>
   (state g = PLAYING \<and> 0 < cooldown (weapons g w)
      \<longrightarrow> cooldown (weapons (fst (update dt (g, r))) w) = cooldown (weapons g w) - dt) \<and>
   (cooldown (weapons g w) \<le> 0
      \<longrightarrow> cooldown (weapons (fst (update dt (g, r))) w) = cooldown (weapons g w)) \<and>
   (0 \<le> reloading (weapons g (current_weapon g))
      \<longrightarrow> 0 \<le> reloading (weapons (fst (update dt (g, r))) (current_weapon g)))"
proof (intro conjI impI)
  assume a: "0 \<le> D \<and> (\<forall>ev\<in>set evs. tick_within D ev)"
  have "cooldown_from D (fst (Game, r))"
    using a by (simp add: cooldown_from_def Game_def start_weapon_cooldown)
  with a run_cooldown_from [of D evs "(Game, r)"]
  show "\<forall>w. - D \<le> cooldown (weapons (fst (run evs (Game, r))) w)"
    by (simp add: cooldown_from_def)
next
  assume "state g = PLAYING \<and> 0 < cooldown (weapons g w)"
  then show "cooldown (weapons (fst (update dt (g, r))) w) = cooldown (weapons g w) - dt"
    by (simp add: update_cooldown)
next
  assume "cooldown (weapons g w) \<le> 0"
  then show "cooldown (weapons (fst (update dt (g, r))) w) = cooldown (weapons g w)"
    by (simp add: update_cooldown)
next
  assume "0 \<le> reloading (weapons g (current_weapon g))"
  then show "0 \<le> reloading (weapons (fst (update dt (g, r))) (current_weapon g))"
    using tick_weapons_selected_reloading [of g dt] by (simp add: update_weapons)
qed

theorem cooldown_not_floored_witness:
  "(0::real) \<le> 1 / 2 \<and> list_all (tick_within (1 / 2)) [Start target, Fire, Tick (1 / 2)] \<and>
   - (1 / 2) \<le> cooldown (weapons (fst (run [Start target, Fire, Tick (1 / 2)]
                                          (Game, centre_rng))) Pistol) \<and>
   state (fst (run [Start target, Fire] (Game, centre_rng))) = PLAYING \<and>
   0 < cooldown (weapons (fst (run [Start target, Fire] (Game, centre_rng))) Pistol) \<and>
   cooldown (weapons (fst (update (1 / 2) (fst (run [Start target, Fire] (Game, centre_rng)),
                                          centre_rng))) Pistol) = 3 / 10 - 1 / 2 \<and>
   0 \<le> reloading (weapons (fst (run [Start target, Fire] (Game, centre_rng)))
                    (current_weapon (fst (run [Start target, Fire] (Game, centre_rng))))) \<and>
   0 \<le> reloading (weapons (fst (update (1 / 2) (fst (run [Start target, Fire] (Game, centre_rng)),
                                               centre_rng)))
                    (current_weapon (fst (run [Start target, Fire] (Game, centre_rng)))))"
proof -
  let ?g = "fst (run [Start target, Fire] (Game, centre_rng))"
  have h1: "(0::real) \<le> 1 / 2 \<and> (\<forall>ev\<in>set [Start target, Fire, Tick (1 / 2)]. tick_within (1 / 2) ev)"
    by simp
  have h2: "state ?g = PLAYING \<and> 0 < cooldown (weapons ?g Pistol)"
    by (simp add: after_first_shot del: run.simps)
  have h3: "0 \<le> reloading (weapons ?g (current_weapon ?g))"
    by (simp add: after_first_shot del: run.simps)
  have c: "cooldown (weapons ?g Pistol) = 3 / 10"
    by (simp add: after_first_shot del: run.simps)
  from cooldown_not_floored [of "1 / 2" "[Start target, Fire, Tick (1 / 2)]" centre_rng ?g Pistol
      "1 / 2"] h1 h2 h3 c
  show ?thesis by (simp del: run.simps add: list_all_iff)
qed

text \<open>
  The claim as stated fails: after a pistol shot the cooldown is 0.3, and a tick of
  0.5 seconds leaves it at -0.2.
\<close>

theorem cooldown_negative_counterexample:
  "cooldown (weapons (fst (run [Start target, Fire, Tick (1 / 2)] (Game, centre_rng))) Pistol) < 0"
proof -
  let ?g = "fst (run [Start target, Fire] (Game, centre_rng))"
  have "run [Start target, Fire, Tick (1 / 2)] (Game, centre_rng)
          = update (1 / 2) (?g, snd (run [Start target, Fire] (Game, centre_rng)))"
    using run_snoc [of "[Start target, Fire]" "Tick (1 / 2)" "(Game, centre_rng)"] by simp
  then show ?thesis
    by (simp only: update_cooldown after_first_shot) simp
qed

subsection \<open>Reload of a weapon that is not selected\<close>

text \<open>
  Claim C1 (the code departs from it).  The pistol is fired once and its reload
  started (reload-remaining 1.5), then the rifle is selected.  The tick of 2 seconds
  takes the pistol's reload-remaining across 0, and \<open>finish_reload\<close> refills the
  selected rifle instead: the pistol keeps 11 rounds in the magazine and 36 in
  reserve, and its reload-remaining stays at -0.5.
\<close>

theorem reload_finishes_on_selected_weapon:
  "current_weapon (fst (run [Start target, Fire, Reload, Switch Rifle] (Game, centre_rng))) = Rifle \<and>
   weapons (fst (run [Start target, Fire, Reload, Switch Rifle] (Game, centre_rng))) Pistol
     = \<lparr>ammo = 11, reserve = 36, cooldown = 3 / 10, reloading = 3 / 2\<rparr> \<and>
   weapons (fst (run [Start target, Fire, Reload, Switch Rifle, Tick 2] (Game, centre_rng))) Pistol
     = \<lparr>ammo = 11, reserve = 36, cooldown = - (17 / 10), reloading = - (1 / 2)\<rparr>"
proof -
  obtain g2 r2 where s2: "run [Start target, Fire] (Game, centre_rng) = (g2, r2)"
    by (cases "run [Start target, Fire] (Game, centre_rng)")
  have g2: "state g2 = PLAYING" "current_weapon g2 = Pistol"
    "weapons g2 = start_weapon(Pistol := \<lparr>ammo = 11, reserve = 36, cooldown = 3 / 10, reloading = 0\<rparr>)"
    using after_first_shot [of centre_rng] by (simp_all add: s2 del: run.simps)
  let ?g4 = "(reload g2)\<lparr>current_weapon := Rifle\<rparr>"
  have r3: "run [Start target, Fire, Reload] (Game, centre_rng) = (reload g2, r2)"
    using run_snoc [of "[Start target, Fire]" Reload "(Game, centre_rng)"]
    by (simp add: s2 del: run.simps)
  have r4: "run [Start target, Fire, Reload, Switch Rifle] (Game, centre_rng) = (?g4, r2)"
    using run_snoc [of "[Start target, Fire, Reload]" "Switch Rifle" "(Game, centre_rng)"]
    by (simp add: r3 del: run.simps)
  have r5: "run [Start target, Fire, Reload, Switch Rifle, Tick 2] (Game, centre_rng)
              = update 2 (?g4, r2)"
    using run_snoc [of "[Start target, Fire, Reload, Switch Rifle]" "Tick 2" "(Game, centre_rng)"]
    by (simp add: r4 del: run.simps)
  have g4: "state ?g4 = PLAYING" "current_weapon ?g4 = Rifle"
    "weapons ?g4 = start_weapon(Pistol := \<lparr>ammo = 11, reserve = 36, cooldown = 3 / 10,
                                          reloading = 3 / 2\<rparr>)"
    using g2 by (simp_all add: reload_def Let_def WeaponConfig_def)
  have "weapons (auto_reload (tick_weapons 2 ?g4)) Pistol
          = \<lparr>ammo = 11, reserve = 36, cooldown = - (17 / 10), reloading = - (1 / 2)\<rparr>"
    using g4(2,3)
    by (simp add: tick_weapons_def tick_weapon_alt tick_timers_def finish_reload_def
        auto_reload_def Let_def WeaponConfig_def)
  then have "weapons (fst (update 2 (?g4, r2))) Pistol
          = \<lparr>ammo = 11, reserve = 36, cooldown = - (17 / 10), reloading = - (1 / 2)\<rparr>"
    using g4(1) by (simp only: update_weapons) simp
  then show ?thesis
    using g4 by (simp only: r4 r5 fst_conv) simp
qed

lemma update_enemies_dead:
  "\<forall>e\<in>set es. \<not> enemy.alive e \<Longrightarrow> update_enemies dt p es r = (es, r)"
  by (induction es arbitrary: r) (simp_all add: enemy_update_def)

lemma tick_weapon_rest:
  "enemies (tick_weapon dt w g) = enemies g \<and> game_mode (tick_weapon dt w g) = game_mode g \<and>
   wave (tick_weapon dt w g) = wave g \<and> state (tick_weapon dt w g) = state g"
  by (simp add: tick_weapon_alt finish_reload_def tick_timers_def Let_def)

lemma tick_weapons_rest:
  "enemies (auto_reload (tick_weapons dt g)) = enemies g \<and>
   game_mode (auto_reload (tick_weapons dt g)) = game_mode g \<and>
   wave (auto_reload (tick_weapons dt g)) = wave g"
  by (simp add: auto_reload_def reload_def Let_def tick_weapons_def tick_weapon_rest)

lemma update_spawns_next_wave:
  assumes "state g = PLAYING" "game_mode g = Some survival"
    and "\<forall>e\<in>set (enemies g). \<not> enemy.alive e"
  shows "wave (fst (update dt (g, r))) = wave g + 1 \<and>
         length (enemies (fst (update dt (g, r)))) = nat (enemies_per_wave g) \<and>
         enemies_per_wave (fst (update dt (g, r))) = enemies_per_wave g + 2"
proof -
  let ?g0 = "auto_reload (tick_weapons dt g)"
  obtain g1 r1 where t: "tick_entities dt (g, r) = (g1, r1)" by (cases "tick_entities dt (g, r)")
  have dead: "\<forall>e\<in>set (enemies ?g0). \<not> enemy.alive e"
    using assms(3) by (simp add: tick_weapons_rest)
  have te: "tick_enemies dt (?g0, r) = (?g0\<lparr>enemies := []\<rparr>, r)"
  proof -
    have "filter enemy.alive (enemies ?g0) = []"
      using dead by (simp add: filter_empty_conv)
    then show ?thesis
      by (simp add: tick_enemies_def update_enemies_dead [OF dead])
  qed
  have g1: "enemies g1 = []" "game_mode g1 = Some survival" "wave g1 = wave g"
    "enemies_per_wave g1 = enemies_per_wave g"
    using t assms(2) tick_weapons_rest [of dt g] tick_weapons_epw [of dt g]
    by (auto simp add: tick_entities_def te tick_particles_def tick_kill_feed_def tick_shake_def
        split: if_splits)
  have due: "wave_due g1" by (simp add: wave_due_def g1)
  from spawn_wave_effect [of "g1\<lparr>wave := wave g1 + 1\<rparr>" r1] obtain es where es:
    "fst (spawn_wave (g1\<lparr>wave := wave g1 + 1\<rparr>, r1))
       = g1\<lparr>wave := wave g1 + 1,
            kill_feed := kill_feed g1
               @ [\<lparr>message = ''Wave '' @ str_int (wave g1 + 1) @ '' Starting!'', time = 3.0\<rparr>],
            enemies := enemies g1 @ es,
            enemies_per_wave := enemies_per_wave g1 + 2\<rparr>"
    "length es = nat (enemies_per_wave g1)"
    by auto
  have "fst (update dt (g, r)) = fst (spawn_wave (g1\<lparr>wave := wave g1 + 1\<rparr>, r1))"
    using assms(1) due by (simp add: update_def t replenish_def)
  then show ?thesis using es g1 by simp
qed

subsection \<open>Waves of a survival session\<close>

text \<open>
  Claim C7 (the code departs from it).  On a fresh \<open>Game\<close>, starting survival mode
  spawns 5 enemies as wave 1, and the tick that finds all five eliminated makes the
  wave number 2 and spawns 7.  Started a second time on the same \<open>Game\<close> object,
  after a return to the menu, survival mode spawns 7 enemies as wave 1, because
  \<open>start_game\<close> does not set \<open>enemies_per_wave\<close> back to 5.
\<close>

theorem second_survival_session_starts_with_seven:
  "length (enemies (fst (run [Start survival] (Game, centre_rng)))) = 5 \<and>
   wave (fst (run [Start survival] (Game, centre_rng))) = 1 \<and>
   wave (fst (update (1 / 60)
           (all_killed (fst (run [Start survival] (Game, centre_rng))), centre_rng))) = 2 \<and>
   length (enemies (fst (update (1 / 60)
           (all_killed (fst (run [Start survival] (Game, centre_rng))), centre_rng)))) = 7 \<and>
   length (enemies (fst (run [Start survival, SetState PAUSED, SetState MENU, Start survival]
                          (Game, centre_rng)))) = 7 \<and>
   wave (fst (run [Start survival, SetState PAUSED, SetState MENU, Start survival]
                (Game, centre_rng))) = 1"
proof -
  obtain g1 r1 where s1: "start_game survival (Game, centre_rng) = (g1, r1)"
    by (cases "start_game survival (Game, centre_rng)")
  have epw: "enemies_per_wave Game = 5" by (simp add: Game_def)
  have g1: "length (enemies g1) = 5" "wave g1 = 1" "enemies_per_wave g1 = 7"
    "state g1 = PLAYING" "game_mode g1 = Some survival"
    using start_game_fields(9,11,12,5,6) [of survival Game centre_rng]
    by (simp_all add: s1 epw)
  have k: "state (all_killed g1) = PLAYING" "game_mode (all_killed g1) = Some survival"
    "\<forall>e\<in>set (enemies (all_killed g1)). \<not> enemy.alive e"
    "wave (all_killed g1) = 1" "enemies_per_wave (all_killed g1) = 7"
    using g1 by (simp_all add: all_killed_def)
  have w2: "wave (fst (update (1 / 60) (all_killed g1, centre_rng))) = 2"
    "length (enemies (fst (update (1 / 60) (all_killed g1, centre_rng)))) = 7"
    using update_spawns_next_wave [OF k(1,2,3), of "1 / 60" centre_rng] k(4,5) by simp_all
  have "length (enemies (fst (start_game survival (g1\<lparr>state := MENU\<rparr>, r1)))) = 7"
       "wave (fst (start_game survival (g1\<lparr>state := MENU\<rparr>, r1))) = 1"
    using start_game_fields(9,11) [of survival "g1\<lparr>state := MENU\<rparr>" r1] g1
    by simp_all
  then show ?thesis using g1 w2 by (simp add: s1)
qed

subsection \<open>Normalisation\<close>

















end
